theory Spec2Isabelle
  imports Complex_Main "HOL-Library.Word" "HOL-Library.Sublist"
begin

unbundle bit_operations_syntax

section \<open>Python values used by the services\<close>

text \<open>
  A Python \<open>bytes\<close> object is a list of 8-bit words. A Python \<open>str\<close> is a \<open>string\<close>;
  the few characters outside ASCII that the source mentions (the currency symbols) are
  written as their UTF-8 bytes.
\<close>

type_synonym byte = "8 word"

definition nl :: string where
  "nl = [CHR 0x0A]"

definition sq :: string where
  "sq = [CHR 0x27]"

definition dq :: string where
  "dq = [CHR 0x22]"

text \<open>
  Exceptions are values. Each constructor is one exception class the services raise or
  let through. The argument is the message, except that the four operating-system errors
  with a name of their own carry the path they are about and \<open>FileTypeNotAllowed\<close>, the
  \<open>ValueError\<close> of \<open>save_asset\<close>, the extension it reports. \<open>OSError\<close> is any other
  error of the operating system (no permission, no space left, an input/output error). The exceptions of Pillow, of the QR code library, of Jinja2 and
  of WeasyPrint carry the message the library gives them.
\<close>

datatype py_exception =
    ValueError string
  | TypeError string
  | FileTypeNotAllowed string
  | FileExistsError string
  | FileNotFoundError string
  | IsADirectoryError string
  | NotADirectoryError string
  | OSError string
  | AttributeError string
  | PillowError string
  | QRCodeError string
  | TemplateError string
  | WeasyPrintError string

text \<open>
  \<open>str(e)\<close>. The message of \<open>save_asset\<close> ends in the \<open>repr\<close> of a set, whose order
  Python does not fix; the order of the source stands for it here.
\<close>

fun exc_str :: "py_exception \<Rightarrow> string" where
  "exc_str (ValueError m) = m"
| "exc_str (TypeError m) = m"
| "exc_str (FileTypeNotAllowed ext) =
     ''File type '' @ ext @ '' not allowed. Allowed: {'' @ sq @ ''.png'' @ sq @ '', '' @ sq @
     ''.jpg'' @ sq @ '', '' @ sq @ ''.jpeg'' @ sq @ '', '' @ sq @ ''.gif'' @ sq @ '', '' @ sq @
     ''.svg'' @ sq @ '', '' @ sq @ ''.webp'' @ sq @ ''}''"
| "exc_str (FileExistsError p) = ''[Errno 17] File exists: '' @ sq @ p @ sq"
| "exc_str (FileNotFoundError p) = ''[Errno 2] No such file or directory: '' @ sq @ p @ sq"
| "exc_str (IsADirectoryError p) = ''[Errno 21] Is a directory: '' @ sq @ p @ sq"
| "exc_str (NotADirectoryError p) = ''[Errno 20] Not a directory: '' @ sq @ p @ sq"
| "exc_str (OSError m) = m"
| "exc_str (AttributeError m) = m"
| "exc_str (PillowError m) = m"
| "exc_str (QRCodeError m) = m"
| "exc_str (TemplateError m) = m"
| "exc_str (WeasyPrintError m) = m"

subsection \<open>\<open>str.lower\<close>\<close>



subsection \<open>Decimal text of integers\<close>

definition digit_char :: "nat \<Rightarrow> char" where
  "digit_char d = ''0123456789'' ! (d mod 10)"

fun nat_digits :: "nat \<Rightarrow> string" where
  "nat_digits n = (if n < 10 then [digit_char n] else nat_digits (n div 10) @ [digit_char n])"

declare nat_digits.simps [simp del]

definition int_str :: "int \<Rightarrow> string" where
  "int_str i = (if i < 0 then CHR ''-'' # nat_digits (nat (- i)) else nat_digits (nat i))"

definition zfill :: "nat \<Rightarrow> string \<Rightarrow> string" where
  "zfill k s = replicate (k - length s) CHR ''0'' @ s"

subsection \<open>\<open>pathlib\<close>: name, suffix and stem of a path\<close>

text \<open>
  \<open>Path(filename)\<close> on POSIX: the path is split at \<open>/\<close>, empty and \<open>.\<close> components are
  dropped, and \<open>name\<close> is the last component left (empty when there is none).
  \<open>suffix\<close> and \<open>stem\<close> cut the name at its last dot, unless that dot is the first or the
  last character of the name.
\<close>

fun split_on :: "char \<Rightarrow> string \<Rightarrow> string list" where
  "split_on c [] = [[]]"
| "split_on c (x # xs) =
     (if x = c then [] # split_on c xs
      else (case split_on c xs of [] \<Rightarrow> [[x]] | p # ps \<Rightarrow> (x # p) # ps))"

definition path_name :: "string \<Rightarrow> string" where
  "path_name p =
     (case filter (\<lambda>c. c \<noteq> [] \<and> c \<noteq> ''.'') (split_on CHR ''/'' p) of
        [] \<Rightarrow> []
      | c # cs \<Rightarrow> last (c # cs))"

fun rfind :: "char \<Rightarrow> string \<Rightarrow> nat option" where
  "rfind c [] = None"
| "rfind c (x # xs) =
     (case rfind c xs of
        Some i \<Rightarrow> Some (Suc i)
      | None \<Rightarrow> if x = c then Some 0 else None)"


definition path_stem :: "string \<Rightarrow> string" where
  "path_stem p =
     (let name = path_name p in
      case rfind CHR ''.'' name of
        None \<Rightarrow> name
      | Some i \<Rightarrow> if 0 < i \<and> i + 1 < length name then take i name else name)"

definition path_join :: "string \<Rightarrow> string \<Rightarrow> string" where
  "path_join d n = d @ ''/'' @ n"

subsection \<open>The clock\<close>

record datetime =
  year :: nat
  month :: nat
  day :: nat
  hour :: nat
  minute :: nat
  second :: nat
  microsecond :: nat

text \<open>\<open>strftime("%Y%m%d_%H%M%S")\<close>: zero-padded decimal fields, resolution one second.\<close>

definition strftime_stamp :: "datetime \<Rightarrow> string" where
  "strftime_stamp t =
     zfill 4 (nat_digits (year t)) @ zfill 2 (nat_digits (month t)) @ zfill 2 (nat_digits (day t))
     @ ''_'' @
     zfill 2 (nat_digits (hour t)) @ zfill 2 (nat_digits (minute t)) @ zfill 2 (nat_digits (second t))"

text \<open>
  \<open>datetime.now()\<close> lies in the years 1000 to 9999, where \<open>%Y\<close> prints four digits on
  every platform; \<open>in_range\<close> says that a clock reading has the field ranges of such a
  \<open>datetime\<close>. \<open>same_second\<close> compares two readings down to the second.
\<close>

definition in_range :: "datetime \<Rightarrow> bool" where
  "in_range t \<longleftrightarrow>
     1000 \<le> year t \<and> year t \<le> 9999 \<and> 1 \<le> month t \<and> month t \<le> 12 \<and>
     1 \<le> day t \<and> day t \<le> 31 \<and> hour t < 24 \<and> minute t < 60 \<and> second t < 60"

definition same_second :: "datetime \<Rightarrow> datetime \<Rightarrow> bool" where
  "same_second t1 t2 \<longleftrightarrow>
     year t1 = year t2 \<and> month t1 = month t2 \<and> day t1 = day t2 \<and>
     hour t1 = hour t2 \<and> minute t1 = minute t2 \<and> second t1 = second t2"

text \<open>Reading a decimal numeral back.\<close>

definition digit_val :: "char \<Rightarrow> nat" where
  "digit_val c = (case map_of (zip ''0123456789'' [0..<10]) c of Some d \<Rightarrow> d | None \<Rightarrow> 0)"

definition dec_val :: "string \<Rightarrow> nat" where
  "dec_val s = foldl (\<lambda>a c. 10 * a + digit_val c) 0 s"

subsection \<open>The file system\<close>

datatype fs_node = File "byte list" | Directory

type_synonym filesystem = "string \<rightharpoonup> fs_node"

text \<open>\<open>os.path.exists\<close>\<close>

definition path_exists :: "filesystem \<Rightarrow> string \<Rightarrow> bool" where
  "path_exists fs p = (fs p \<noteq> None)"

text \<open>\<open>open(p, 'rb').read()\<close>\<close>

definition read_file :: "filesystem \<Rightarrow> string \<Rightarrow> py_exception + byte list" where
  "read_file fs p =
     (case fs p of
        None \<Rightarrow> Inl (FileNotFoundError p)
      | Some Directory \<Rightarrow> Inl (IsADirectoryError p)
      | Some (File b) \<Rightarrow> Inr b)"

text \<open>
  Writing a file. Whether the operating system carries a write through is not decided by
  the tree of paths alone: \<open>open\<close> may be refused (no permission, a quota), and \<open>write\<close>
  or the closing flush may stop after part of the bytes (no space left, an input/output
  error). A \<open>disk\<close> says, for a path and the bytes to be stored there, which of these
  happens, if any, and with which message; \<open>WriteFails n\<close> stops after \<open>n\<close> bytes.
\<close>

datatype io_fault = OpenFails string | WriteFails nat string

type_synonym disk = "string \<Rightarrow> byte list \<Rightarrow> io_fault option"

text \<open>
  \<^verbatim>\<open>with open(p, 'wb') as f: f.write(b)\<close> for a path \<open>p\<close> in the directory \<open>parent\<close>.
  \<open>open\<close> raises when the directory is missing or is a regular file, when \<open>p\<close> is a
  directory, or when the disk refuses; otherwise it creates the file or empties the one
  that is there, so that a write that fails leaves the bytes that got through under \<open>p\<close>.
  The result is what is raised, if anything, and the file system left behind.
\<close>

definition write_file ::
  "disk \<Rightarrow> filesystem \<Rightarrow> string \<Rightarrow> string \<Rightarrow> byte list \<Rightarrow>
   (py_exception + unit) \<times> filesystem" where
  "write_file disk fs parent p b =
     (case fs parent of
        None \<Rightarrow> (Inl (FileNotFoundError p), fs)
      | Some (File _) \<Rightarrow> (Inl (NotADirectoryError p), fs)
      | Some Directory \<Rightarrow>
          (case fs p of
             Some Directory \<Rightarrow> (Inl (IsADirectoryError p), fs)
           | _ \<Rightarrow>
               (case disk p b of
                  None \<Rightarrow> (Inr (), fs(p \<mapsto> File b))
                | Some (OpenFails m) \<Rightarrow> (Inl (OSError m), fs)
                | Some (WriteFails n m) \<Rightarrow> (Inl (OSError m), fs(p \<mapsto> File (take n b))))))"


section \<open>MD5 (\<open>hashlib.md5\<close>)\<close>

definition md5_s :: "nat list" where
  "md5_s = [7, 12, 17, 22, 7, 12, 17, 22, 7, 12, 17, 22, 7, 12, 17, 22,
            5, 9, 14, 20, 5, 9, 14, 20, 5, 9, 14, 20, 5, 9, 14, 20,
            4, 11, 16, 23, 4, 11, 16, 23, 4, 11, 16, 23, 4, 11, 16, 23,
            6, 10, 15, 21, 6, 10, 15, 21, 6, 10, 15, 21, 6, 10, 15, 21]"

definition md5_K :: "32 word list" where
  "md5_K =
    [0xd76aa478, 0xe8c7b756, 0x242070db, 0xc1bdceee,
     0xf57c0faf, 0x4787c62a, 0xa8304613, 0xfd469501,
     0x698098d8, 0x8b44f7af, 0xffff5bb1, 0x895cd7be,
     0x6b901122, 0xfd987193, 0xa679438e, 0x49b40821,
     0xf61e2562, 0xc040b340, 0x265e5a51, 0xe9b6c7aa,
     0xd62f105d, 0x02441453, 0xd8a1e681, 0xe7d3fbc8,
     0x21e1cde6, 0xc33707d6, 0xf4d50d87, 0x455a14ed,
     0xa9e3e905, 0xfcefa3f8, 0x676f02d9, 0x8d2a4c8a,
     0xfffa3942, 0x8771f681, 0x6d9d6122, 0xfde5380c,
     0xa4beea44, 0x4bdecfa9, 0xf6bb4b60, 0xbebfbc70,
     0x289b7ec6, 0xeaa127fa, 0xd4ef3085, 0x04881d05,
     0xd9d4d039, 0xe6db99e5, 0x1fa27cf8, 0xc4ac5665,
     0xf4292244, 0x432aff97, 0xab9423a7, 0xfc93a039,
     0x655b59c3, 0x8f0ccc92, 0xffeff47d, 0x85845dd1,
     0x6fa87e4f, 0xfe2ce6e0, 0xa3014314, 0x4e0811a1,
     0xf7537e82, 0xbd3af235, 0x2ad7d2bb, 0xeb86d391]"

definition rotl32 :: "nat \<Rightarrow> 32 word \<Rightarrow> 32 word" where
  "rotl32 n w = push_bit n w OR drop_bit (32 - n) w"

text \<open>The \<open>k\<close> low bytes of \<open>n\<close>, least significant first.\<close>

definition le_bytes :: "nat \<Rightarrow> nat \<Rightarrow> byte list" where
  "le_bytes k n = map (\<lambda>i. of_nat (n div 256 ^ i)) [0..<k]"

definition md5_pad :: "byte list \<Rightarrow> byte list" where
  "md5_pad m = m @ [0x80] @ replicate ((119 - length m mod 64) mod 64) 0
                 @ le_bytes 8 (8 * length m)"

fun le32 :: "byte list \<Rightarrow> 32 word" where
  "le32 [] = 0"
| "le32 (b # bs) = ucast b OR push_bit 8 (le32 bs)"

type_synonym md5_state = "32 word \<times> 32 word \<times> 32 word \<times> 32 word"

definition md5_step :: "32 word list \<Rightarrow> nat \<Rightarrow> md5_state \<Rightarrow> md5_state" where
  "md5_step M i st =
     (case st of (A, B, C, D) \<Rightarrow>
        let (F, g) =
              (if i < 16 then ((B AND C) OR (NOT B AND D), i)
               else if i < 32 then ((D AND B) OR (NOT D AND C), (5 * i + 1) mod 16)
               else if i < 48 then (B XOR C XOR D, (3 * i + 5) mod 16)
               else (C XOR (B OR NOT D), (7 * i) mod 16));
            F' = F + A + md5_K ! i + M ! g
        in (D, B + rotl32 (md5_s ! i) F', B, C))"

definition md5_block :: "md5_state \<Rightarrow> byte list \<Rightarrow> md5_state" where
  "md5_block st blk =
     (case st of (a0, b0, c0, d0) \<Rightarrow>
        let M = map (\<lambda>j. le32 (take 4 (drop (4 * j) blk))) [0..<16]
        in case fold (md5_step M) [0..<64] st of
             (A, B, C, D) \<Rightarrow> (a0 + A, b0 + B, c0 + C, d0 + D))"

definition md5_digest :: "byte list \<Rightarrow> byte list" where
  "md5_digest m =
     (let p = md5_pad m
      in case fold (\<lambda>k st. md5_block st (take 64 (drop (64 * k) p)))
                   [0..<length p div 64]
                   (0x67452301, 0xefcdab89, 0x98badcfe, 0x10325476) of
           (a, b, c, d) \<Rightarrow> concat (map (\<lambda>w. le_bytes 4 (unat w)) [a, b, c, d]))"

definition hex_digit :: "nat \<Rightarrow> char" where
  "hex_digit n = ''0123456789abcdef'' ! (n mod 16)"

definition hex_byte :: "byte \<Rightarrow> string" where
  "hex_byte b = [hex_digit (unat b div 16), hex_digit (unat b)]"

definition md5_hexdigest :: "byte list \<Rightarrow> string" where
  "md5_hexdigest m = concat (map hex_byte (md5_digest m))"

section \<open>Dictionaries and JSON values\<close>

text \<open>
  The values the services format into text are \<open>None\<close>, booleans, integers and strings;
  \<open>py_str\<close> is \<open>str()\<close>, which is also what an f-string field applies.
\<close>

datatype scalar = PNone | PBool bool | PInt int | PStr string

fun py_str :: "scalar \<Rightarrow> string" where
  "py_str PNone = ''None''"
| "py_str (PBool b) = (if b then ''True'' else ''False'')"
| "py_str (PInt i) = int_str i"
| "py_str (PStr s) = s"

text \<open>Truth value of a scalar, as \<open>if x\<close>, \<open>not x\<close> and \<open>x or y\<close> test it.\<close>

fun truthy :: "scalar \<Rightarrow> bool" where
  "truthy PNone = False"
| "truthy (PBool b) = b"
| "truthy (PInt i) = (i \<noteq> 0)"
| "truthy (PStr s) = (s \<noteq> [])"

text \<open>
  A \<open>float\<close>: a finite one other than the negative zero is the rational number it
  denotes; the others are the negative zero, the two infinities and the NaNs.
\<close>

datatype pyfloat = Finite rat | NegZero | PosInf | NegInf | NaN

text \<open>
  Any other value (\<open>Dict[str, Any]\<close>: the template context, an asset's display
  configuration) is a tree.
\<close>

datatype pyval =
    Scalar scalar
  | PFloat pyfloat
  | PDateTime datetime
  | PList "pyval list"
  | PDict "(string \<times> pyval) list"

text \<open>
  A dictionary keeps its keys in insertion order: an association list in which
  \<open>d[k] = v\<close> replaces the value of an existing key in place and appends a new one.
\<close>

fun dict_set :: "string \<Rightarrow> 'v \<Rightarrow> (string \<times> 'v) list \<Rightarrow> (string \<times> 'v) list" where
  "dict_set k v [] = [(k, v)]"
| "dict_set k v ((k', v') # d) = (if k' = k then (k, v) # d else (k', v') # dict_set k v d)"

text \<open>\<open>d.get(k, dflt)\<close>\<close>

definition dict_get :: "(string \<times> 'v) list \<Rightarrow> string \<Rightarrow> 'v \<Rightarrow> 'v" where
  "dict_get d k dflt = (case map_of d k of Some v \<Rightarrow> v | None \<Rightarrow> dflt)"

text \<open>
  An entry of a dictionary whose value type the schema fixes: the key is absent, or it is
  present with \<open>None\<close>, or present with a value. \<open>entry_get wrap none e dflt\<close> is
  \<open>d.get(k, dflt)\<close> for the entry \<open>e\<close> of \<open>k\<close>.
\<close>

datatype 'a entry = Absent | Null | Val 'a

fun entry_get :: "('a \<Rightarrow> 'b) \<Rightarrow> 'b \<Rightarrow> 'a entry \<Rightarrow> 'b \<Rightarrow> 'b" where
  "entry_get wrap none Absent dflt = dflt"
| "entry_get wrap none Null dflt = none"
| "entry_get wrap none (Val v) dflt = wrap v"

abbreviation get_str :: "string entry \<Rightarrow> scalar \<Rightarrow> scalar" where
  "get_str \<equiv> entry_get PStr PNone"

abbreviation get_int :: "int entry \<Rightarrow> scalar \<Rightarrow> scalar" where
  "get_int \<equiv> entry_get PInt PNone"

abbreviation get_bool :: "bool entry \<Rightarrow> scalar \<Rightarrow> scalar" where
  "get_bool \<equiv> entry_get PBool PNone"

section \<open>Base64 (\<open>base64.b64encode\<close>)\<close>

definition b64_alphabet :: string where
  "b64_alphabet = ''ABCDEFGHIJKLMNOPQRSTUVWXYZabcdefghijklmnopqrstuvwxyz0123456789+/''"

definition b64_char :: "nat \<Rightarrow> char" where
  "b64_char n = b64_alphabet ! (n mod 64)"

fun b64encode_nat :: "nat list \<Rightarrow> string" where
  "b64encode_nat [] = []"
| "b64encode_nat [a] =
     [b64_char (a div 4), b64_char ((a mod 4) * 16), CHR ''='', CHR ''='']"
| "b64encode_nat [a, b] =
     [b64_char (a div 4), b64_char ((a mod 4) * 16 + b div 16), b64_char ((b mod 16) * 4),
      CHR ''='']"
| "b64encode_nat (a # b # c # rest) =
     [b64_char (a div 4), b64_char ((a mod 4) * 16 + b div 16),
      b64_char ((b mod 16) * 4 + c div 64), b64_char (c mod 64)] @ b64encode_nat rest"

definition b64encode :: "byte list \<Rightarrow> string" where
  "b64encode bs = b64encode_nat (map unat bs)"

text \<open>
  The decoder is not part of the repository; it is the inverse the interface asks for
  (``decoding must reproduce the original file bytes''), base64 of RFC 4648: four
  characters of the alphabet give three bytes, and the last group may end in one or two
  \<open>=\<close>.
\<close>

fun index_of :: "'a \<Rightarrow> 'a list \<Rightarrow> nat option" where
  "index_of x [] = None"
| "index_of x (y # ys) =
     (if x = y then Some 0 else (case index_of x ys of None \<Rightarrow> None | Some i \<Rightarrow> Some (Suc i)))"

definition b64_index :: "char \<Rightarrow> nat option" where
  "b64_index c = index_of c b64_alphabet"

fun b64decode_nat :: "string \<Rightarrow> nat list option" where
  "b64decode_nat [] = Some []"
| "b64decode_nat (c0 # c1 # c2 # c3 # rest) =
     (case (b64_index c0, b64_index c1) of
        (Some i0, Some i1) \<Rightarrow>
          if c2 = CHR ''='' \<and> c3 = CHR ''='' \<and> rest = [] then
            Some [i0 * 4 + i1 div 16]
          else
            (case b64_index c2 of
               None \<Rightarrow> None
             | Some i2 \<Rightarrow>
                 if c3 = CHR ''='' \<and> rest = [] then
                   Some [i0 * 4 + i1 div 16, (i1 mod 16) * 16 + i2 div 4]
                 else
                   (case (b64_index c3, b64decode_nat rest) of
                      (Some i3, Some bs) \<Rightarrow>
                        Some ([i0 * 4 + i1 div 16, (i1 mod 16) * 16 + i2 div 4,
                               (i2 mod 4) * 64 + i3] @ bs)
                    | _ \<Rightarrow> None))
      | _ \<Rightarrow> None)"
| "b64decode_nat _ = None"

definition b64decode :: "string \<Rightarrow> byte list option" where
  "b64decode s = map_option (map of_nat) (b64decode_nat s)"

section \<open>StorageService\<close>


record storage_service =
  assets_path :: string
  documents_path :: string
  temp_path :: string

text \<open>\<open>StorageService()\<close>: the global instance, with \<open>base_path = "uploads"\<close>.\<close>

definition storage_service_default :: storage_service where
  "storage_service_default =
     \<lparr>assets_path = path_join ''uploads'' ''assets'',
      documents_path = path_join ''uploads'' ''documents'',
      temp_path = path_join ''uploads'' ''temp''\<rparr>"




text \<open>
  \<open>save_asset\<close>. The result is what the call returns or raises, together with the file system
  it leaves behind. \<open>asset_type\<close> is one of the role names (the router checks it against the
  \<open>AssetType\<close> enumeration first), so \<open>assets_path / asset_type\<close> is a join with a separator.
\<close>





text \<open>\<open>save_document\<close>: the path it returns and the file it writes. The file name has no
  separator in it (it begins with a \<open>stem\<close>), so the file lies in \<open>documents_path\<close> itself.\<close>

definition document_path :: "storage_service \<Rightarrow> datetime \<Rightarrow> byte list \<Rightarrow> string \<Rightarrow> string" where
  "document_path self now pdf_content filename =
     (let timestamp = strftime_stamp now;
          file_hash = take 8 (md5_hexdigest pdf_content);
          safe_filename = path_stem filename;
          unique_filename = safe_filename @ ''_'' @ timestamp @ ''_'' @ file_hash @ ''.pdf''
      in path_join (documents_path self) unique_filename)"

definition save_document ::
  "disk \<Rightarrow> storage_service \<Rightarrow> datetime \<Rightarrow> filesystem \<Rightarrow> byte list \<Rightarrow> string \<Rightarrow>
   (py_exception + string) \<times> filesystem" where
  "save_document disk self now fs pdf_content filename =
     (let path = document_path self now pdf_content filename in
      case write_file disk fs (documents_path self) path pdf_content of
        (Inl e, fs') \<Rightarrow> (Inl e, fs')
      | (Inr _, fs') \<Rightarrow> (Inr path, fs'))"
section \<open>EnhancedPDFService: asset embedding\<close>

text \<open>
  An asset descriptor is a dictionary; its keys and value types are those of the
  \<open>TemplateAsset\<close> columns the routers copy into it (strings, integers and a boolean, each
  possibly \<open>None\<close>; \<open>display_config\<close> is a JSON value), and \<open>_process_assets\<close> reads
  every one of them with \<open>asset.get\<close>.
\<close>

record asset =
  asset_type :: "string entry"
  file_path :: "string entry"
  mime_type :: "string entry"
  name :: "string entry"
  width :: "int entry"
  height :: "int entry"
  is_default :: "bool entry"
  display_config :: "pyval entry"

text \<open>Lines 122 to 124: the MIME type, the base64 text and the data URL of a file's bytes.\<close>

definition data_url :: "asset \<Rightarrow> byte list \<Rightarrow> string" where
  "data_url asset file_content =
     (let mime = get_str (mime_type asset) (PStr ''image/png'');
          base64_data = b64encode file_content
      in ''data:'' @ py_str mime @ '';base64,'' @ base64_data)"

text \<open>The two dictionary literals stored for an asset.\<close>

definition logo_entry :: "asset \<Rightarrow> string \<Rightarrow> pyval" where
  "logo_entry asset url =
     PDict [(''data_url'', Scalar (PStr url)),
            (''width'', Scalar (get_int (width asset) PNone)),
            (''height'', Scalar (get_int (height asset) PNone)),
            (''display_config'', entry_get id (Scalar PNone) (display_config asset) (PDict []))]"

definition image_entry :: "asset \<Rightarrow> string \<Rightarrow> pyval" where
  "image_entry asset url =
     PDict [(''data_url'', Scalar (PStr url)),
            (''name'', Scalar (get_str (name asset) PNone)),
            (''width'', Scalar (get_int (width asset) PNone)),
            (''height'', Scalar (get_int (height asset) PNone))]"

text \<open>
  One iteration of the loop of \<open>_process_assets\<close>: \<open>processed\<close> is the dictionary built so
  far. The iteration ends at \<open>continue\<close> when the path is \<open>None\<close>, empty or not on disk.
\<close>

definition embed_asset ::
  "filesystem \<Rightarrow> asset \<Rightarrow> (string \<times> pyval) list \<Rightarrow> py_exception + (string \<times> pyval) list" where
  "embed_asset fs asset processed =
     (let a_type = get_str (asset_type asset) (PStr ''image'') in
      case file_path asset of
        Val p \<Rightarrow>
          if p = [] \<or> \<not> path_exists fs p then Inr processed
          else
            (case read_file fs p of
               Inl e \<Rightarrow> Inl e
             | Inr file_content \<Rightarrow>
                 let url = data_url asset file_content in
                 if a_type = PStr ''logo'' \<or> truthy (get_bool (is_default asset) PNone) then
                   Inr (dict_set ''logo'' (logo_entry asset url) processed)
                 else
                   (case map_of processed ''images'' of
                      None \<Rightarrow> Inr (dict_set ''images'' (PList [image_entry asset url]) processed)
                    | Some (PList images) \<Rightarrow>
                        Inr (dict_set ''images'' (PList (images @ [image_entry asset url]))
                               processed)
                    | Some _ \<Rightarrow> Inl (AttributeError ''append'')))
      | _ \<Rightarrow> Inr processed)"

fun process_assets_from ::
  "filesystem \<Rightarrow> asset list \<Rightarrow> (string \<times> pyval) list \<Rightarrow> py_exception + (string \<times> pyval) list" where
  "process_assets_from fs [] processed = Inr processed"
| "process_assets_from fs (asset # assets) processed =
     (case embed_asset fs asset processed of
        Inl e \<Rightarrow> Inl e
      | Inr processed' \<Rightarrow> process_assets_from fs assets processed')"

definition process_assets ::
  "filesystem \<Rightarrow> asset list \<Rightarrow> py_exception + (string \<times> pyval) list" where
  "process_assets fs assets = process_assets_from fs assets []"

text \<open>
  The vocabulary of the classification. An asset is \<open>dangling\<close> when its descriptor has no
  file path or names a path that is not on disk, and \<open>embedded\<close> otherwise; it
  \<open>is_logo\<close> when its role is \<open>logo\<close> or its default flag is set. \<open>asset_url\<close> is the data
  URL of the file an embedded asset names.
\<close>

definition dangling :: "filesystem \<Rightarrow> asset \<Rightarrow> bool" where
  "dangling fs asset \<longleftrightarrow>
     (case file_path asset of Val p \<Rightarrow> p = [] \<or> fs p = None | _ \<Rightarrow> True)"

definition is_logo :: "asset \<Rightarrow> bool" where
  "is_logo asset \<longleftrightarrow> asset_type asset = Val ''logo'' \<or> is_default asset = Val True"

definition asset_url :: "filesystem \<Rightarrow> asset \<Rightarrow> string" where
  "asset_url fs asset =
     (case file_path asset of
        Val p \<Rightarrow> (case fs p of Some (File b) \<Rightarrow> data_url asset b | _ \<Rightarrow> [])
      | _ \<Rightarrow> [])"

definition last_option :: "'a list \<Rightarrow> 'a option" where
  "last_option xs = (if xs = [] then None else Some (last xs))"

definition readable :: "filesystem \<Rightarrow> asset \<Rightarrow> bool" where
  "readable fs asset \<longleftrightarrow>
     (case file_path asset of
        Val p \<Rightarrow> p \<noteq> [] \<and> (case fs p of Some (File b) \<Rightarrow> True | _ \<Rightarrow> False)
      | _ \<Rightarrow> False)"

definition images_of :: "(string \<times> pyval) list \<Rightarrow> pyval list" where
  "images_of processed = (case map_of processed ''images'' of Some (PList xs) \<Rightarrow> xs | _ \<Rightarrow> [])"

definition images_ok :: "(string \<times> pyval) list \<Rightarrow> bool" where
  "images_ok processed \<longleftrightarrow>
     (case map_of processed ''images'' of None \<Rightarrow> True | Some (PList xs) \<Rightarrow> True | _ \<Rightarrow> False)"

text \<open>
  What the classification should produce, written from the specification: the assets that
  are embedded, in input order, split into those that qualify for the logo slot and the
  others; the slot holds the entry of the last one that qualifies, the list the entries of
  the others.
\<close>

definition logos :: "filesystem \<Rightarrow> asset list \<Rightarrow> asset list" where
  "logos fs assets = filter is_logo (filter (\<lambda>a. \<not> dangling fs a) assets)"

definition others :: "filesystem \<Rightarrow> asset list \<Rightarrow> asset list" where
  "others fs assets = filter (\<lambda>a. \<not> is_logo a) (filter (\<lambda>a. \<not> dangling fs a) assets)"

definition logo_slot :: "filesystem \<Rightarrow> asset list \<Rightarrow> pyval option" where
  "logo_slot fs assets =
     map_option (\<lambda>a. logo_entry a (asset_url fs a)) (last_option (logos fs assets))"

definition image_list :: "filesystem \<Rightarrow> asset list \<Rightarrow> pyval list" where
  "image_list fs assets = map (\<lambda>a. image_entry a (asset_url fs a)) (others fs assets)"

section \<open>EnhancedPDFService: branding and stylesheet\<close>

text \<open>\<open>app.core.config.Settings\<close>: the two settings the service reads.\<close>

record settings =
  DEFAULT_FONT_FAMILY :: string
  PDF_PAGE_SIZE :: string

definition default_settings :: settings where
  "default_settings =
     \<lparr>DEFAULT_FONT_FAMILY = ''Inter, -apple-system, BlinkMacSystemFont, sans-serif'',
      PDF_PAGE_SIZE = ''A4''\<rparr>"

text \<open>
  A branding configuration is a dictionary of scalars (\<open>BrandingConfig\<close>: optional
  strings, an optional integer and a boolean).
\<close>

definition get_branding_config ::
  "settings \<Rightarrow> (string \<times> scalar) list \<Rightarrow> (string \<times> scalar) list" where
  "get_branding_config settings config =
     [(''primary_color'', dict_get config ''primary_color'' (PStr ''#1E40AF'')),
      (''secondary_color'', dict_get config ''secondary_color'' (PStr ''#64748B'')),
      (''accent_color'', dict_get config ''accent_color'' (PStr ''#F59E0B'')),
      (''font_family'', dict_get config ''font_family'' (PStr (DEFAULT_FONT_FAMILY settings))),
      (''logo_position'', dict_get config ''logo_position'' (PStr ''header-left'')),
      (''logo_width'', dict_get config ''logo_width'' (PInt 150))]"

text \<open>
  \<open>d[k]\<close>, for the keys that \<open>_get_branding_config\<close> has just written (no other key is
  subscripted, so the \<open>KeyError\<close> of a missing key cannot occur).
\<close>

definition dict_item :: "(string \<times> scalar) list \<Rightarrow> string \<Rightarrow> scalar" where
  "dict_item d k = (case map_of d k of Some v \<Rightarrow> v | None \<Rightarrow> PNone)"

text \<open>The f-string of \<open>_generate_css\<close>, one list element for each of its lines.\<close>

definition base_css_lines :: "settings \<Rightarrow> (string \<times> scalar) list \<Rightarrow> string list" where
  \<open>base_css_lines settings branding =
       [nl,
        ''        @import url('' @ sq @ ''https://fonts.googleapis.com/css2?family=Inter:wght@300;400;500;600;700&display=swap'' @ sq @ '');'' @ nl,
        ''        '' @ nl,
        ''        * {'' @ nl,
        ''            margin: 0;'' @ nl,
        ''            padding: 0;'' @ nl,
        ''            box-sizing: border-box;'' @ nl,
        ''        }'' @ nl,
        ''        '' @ nl,
        ''        @page {'' @ nl,
        ''            size: '' @ PDF_PAGE_SIZE settings @ '';'' @ nl,
        ''            margin: 2cm;'' @ nl,
        ''            '' @ nl,
        ''            @bottom-right {'' @ nl,
        ''                content: '' @ dq @ ''Page '' @ dq @ '' counter(page) '' @ dq @ '' of '' @ dq @ '' counter(pages);'' @ nl,
        ''                font-size: 9pt;'' @ nl,
        ''                color: #64748B;'' @ nl,
        ''            }'' @ nl,
        ''        }'' @ nl,
        ''        '' @ nl,
        ''        body {'' @ nl,
        ''            font-family: '' @ py_str (dict_item branding ''font_family'') @ '';'' @ nl,
        ''            font-size: 11pt;'' @ nl,
        ''            line-height: 1.6;'' @ nl,
        ''            color: #1E293B;'' @ nl,
        ''        }'' @ nl,
        ''        '' @ nl,
        ''        .header {'' @ nl,
        ''            margin-bottom: 2rem;'' @ nl,
        ''            padding-bottom: 1rem;'' @ nl,
        ''            border-bottom: 2px solid '' @ py_str (dict_item branding ''primary_color'') @ '';'' @ nl,
        ''        }'' @ nl,
        ''        '' @ nl,
        ''        .logo {'' @ nl,
        ''            max-width: '' @ py_str (dict_item branding ''logo_width'') @ ''px;'' @ nl,
        ''            height: auto;'' @ nl,
        ''        }'' @ nl,
        ''        '' @ nl,
        ''        h1, h2, h3, h4, h5, h6 {'' @ nl,
        ''            color: '' @ py_str (dict_item branding ''primary_color'') @ '';'' @ nl,
        ''            margin-top: 1.5rem;'' @ nl,
        ''            margin-bottom: 0.75rem;'' @ nl,
        ''            font-weight: 600;'' @ nl,
        ''        }'' @ nl,
        ''        '' @ nl,
        ''        h1 { font-size: 24pt; }'' @ nl,
        ''        h2 { font-size: 18pt; }'' @ nl,
        ''        h3 { font-size: 14pt; }'' @ nl,
        ''        '' @ nl,
        ''        table {'' @ nl,
        ''            width: 100%;'' @ nl,
        ''            border-collapse: collapse;'' @ nl,
        ''            margin: 1.5rem 0;'' @ nl,
        ''        }'' @ nl,
        ''        '' @ nl,
        ''        th, td {'' @ nl,
        ''            padding: 0.75rem;'' @ nl,
        ''            text-align: left;'' @ nl,
        ''            border-bottom: 1px solid #E2E8F0;'' @ nl,
        ''        }'' @ nl,
        ''        '' @ nl,
        ''        th {'' @ nl,
        ''            background-color: #F1F5F9;'' @ nl,
        ''            color: '' @ py_str (dict_item branding ''primary_color'') @ '';'' @ nl,
        ''            font-weight: 600;'' @ nl,
        ''        }'' @ nl,
        ''        '' @ nl,
        ''        .total-row {'' @ nl,
        ''            background-color: #F8FAFC;'' @ nl,
        ''            font-weight: 600;'' @ nl,
        ''            font-size: 12pt;'' @ nl,
        ''        }'' @ nl,
        ''        '' @ nl,
        ''        .highlight {'' @ nl,
        ''            background-color: '' @ py_str (dict_item branding ''accent_color'') @ ''20;'' @ nl,
        ''            padding: 1rem;'' @ nl,
        ''            border-left: 4px solid '' @ py_str (dict_item branding ''accent_color'') @ '';'' @ nl,
        ''            margin: 1rem 0;'' @ nl,
        ''        }'' @ nl,
        ''        '' @ nl,
        ''        .footer {'' @ nl,
        ''            margin-top: 3rem;'' @ nl,
        ''            padding-top: 1rem;'' @ nl,
        ''            border-top: 1px solid #E2E8F0;'' @ nl,
        ''            font-size: 9pt;'' @ nl,
        ''            color: #64748B;'' @ nl,
        ''        }'' @ nl,
        ''        '' @ nl,
        ''        .watermark {'' @ nl,
        ''            position: fixed;'' @ nl,
        ''            top: 50%;'' @ nl,
        ''            left: 50%;'' @ nl,
        ''            transform: translate(-50%, -50%) rotate(-45deg);'' @ nl,
        ''            font-size: 72pt;'' @ nl,
        ''            font-weight: 700;'' @ nl,
        ''            color: rgba(0, 0, 0, 0.05);'' @ nl,
        ''            z-index: -1;'' @ nl,
        ''            white-space: nowrap;'' @ nl,
        ''            pointer-events: none;'' @ nl,
        ''        }'' @ nl,
        ''        '' @ nl,
        ''        .qr-code {'' @ nl,
        ''            max-width: 150px;'' @ nl,
        ''            height: auto;'' @ nl,
        ''        }'' @ nl,
        ''        '' @ nl,
        ''        .text-right { text-align: right; }'' @ nl,
        ''        .text-center { text-align: center; }'' @ nl,
        ''        .mt-4 { margin-top: 2rem; }'' @ nl,
        ''        .mb-4 { margin-bottom: 2rem; }'' @ nl,
        ''        '']\<close>

definition generate_css ::
  "settings \<Rightarrow> (string \<times> scalar) list \<Rightarrow> string option \<Rightarrow> string" where
  "generate_css settings branding_config custom_css =
     (let branding = get_branding_config settings branding_config;
          base_css = concat (base_css_lines settings branding)
      in case custom_css of
           None \<Rightarrow> base_css
         | Some css \<Rightarrow>
             if css = [] then base_css
             else base_css @ nl @ nl @ ''/* Custom CSS */'' @ nl @ css)"

section \<open>EnhancedPDFService: template filters\<close>

text \<open>
  The table of \<open>_format_currency\<close>. The symbols outside ASCII are their UTF-8 bytes: the
  euro sign, the pound sign and the rupee sign.
\<close>

definition currency_symbols :: "(string \<times> string) list" where
  "currency_symbols =
     [(''USD'', ''$''),
      (''EUR'', [CHR 0xE2, CHR 0x82, CHR 0xAC]),
      (''GBP'', [CHR 0xC2, CHR 0xA3]),
      (''INR'', [CHR 0xE2, CHR 0x82, CHR 0xB9])]"

text \<open>
  The format specification \<open>,.2f\<close>. A finite number is rounded to hundredths (a tie
  goes to the even neighbour, as the correctly rounded conversion of the exact value
  does), its integer part is grouped in threes by commas, two decimals follow, and a minus
  sign comes first for a negative value, also when it rounds to zero; the negative zero
  keeps its sign, and an infinity or a NaN is printed by name, without decimals.
\<close>

definition round_half_even :: "rat \<Rightarrow> int" where
  "round_half_even q =
     (let f = \<lfloor>q\<rfloor>; d = q - of_int f in
      if d < 1 / 2 then f
      else if 1 / 2 < d then f + 1
      else if even f then f else f + 1)"

fun group3_rev :: "string \<Rightarrow> string" where
  "group3_rev (a # b # c # d # rest) = a # b # c # CHR '','' # group3_rev (d # rest)"
| "group3_rev s = s"

definition group3 :: "string \<Rightarrow> string" where
  "group3 s = rev (group3_rev (rev s))"

fun format_2f :: "pyfloat \<Rightarrow> string" where
  "format_2f (Finite v) =
     (let n = nat (round_half_even (\<bar>v\<bar> * 100)) in
      (if v < 0 then ''-'' else []) @
      group3 (nat_digits (n div 100)) @ ''.'' @ zfill 2 (nat_digits (n mod 100)))"
| "format_2f NegZero = ''-0.00''"
| "format_2f PosInf = ''inf''"
| "format_2f NegInf = ''-inf''"
| "format_2f NaN = ''nan''"

text \<open>\<open>_format_currency\<close>: \<^verbatim>\<open>f"{symbol}{value:,.2f}"\<close>\<close>

definition format_currency :: "pyfloat \<Rightarrow> string \<Rightarrow> string" where
  "format_currency v currency =
     (let symbol = dict_get currency_symbols currency currency
      in symbol @ format_2f v)"

section \<open>Jinja2\<close>

text \<open>
  Jinja2 is a library outside the repository. What follows models the part of it that the
  service configures and the templates of the scenarios use: literal text and
  \<open>{{ name.attr | filter }}\<close> outputs, over printable ASCII. \<open>None\<close> as a result means
  that a template or a value lies outside this part; nothing is claimed about it.

  An environment is what \<open>Environment(...)\<close> fixes: the \<open>autoescape\<close> flag and the names
  of the filters registered on top of the built-in ones.
\<close>

record jinja_env =
  autoescape :: bool
  custom_filters :: "string list"

text \<open>
  \<open>self.jinja_env\<close> as \<open>__init__\<close> builds it, and the environment of a bare
  \<open>Template(source)\<close>: Jinja2's defaults, \<open>autoescape=False\<close> and no filter added.
\<close>

definition service_env :: jinja_env where
  "service_env =
     \<lparr>autoescape = True, custom_filters = [''b64encode'', ''format_currency'', ''format_date'']\<rparr>"

definition template_class_env :: jinja_env where
  "template_class_env = \<lparr>autoescape = False, custom_filters = []\<rparr>"

datatype node = Text string | Output "string list" "string list"

text \<open>\<open>markupsafe.escape\<close>\<close>

fun escape_char :: "char \<Rightarrow> string" where
  "escape_char c =
     (if c = CHR ''&'' then ''&amp;''
      else if c = CHR ''<'' then ''&lt;''
      else if c = CHR ''>'' then ''&gt;''
      else if c = CHR 0x27 then ''&#39;''
      else if c = CHR 0x22 then ''&#34;''
      else [c])"

definition escape :: "string \<Rightarrow> string" where
  "escape s = concat (map escape_char s)"

subsection \<open>Reading a template\<close>

definition ident_start :: "char \<Rightarrow> bool" where
  "ident_start c \<longleftrightarrow>
     c \<in> set ''abcdefghijklmnopqrstuvwxyzABCDEFGHIJKLMNOPQRSTUVWXYZ_''"

definition ident_char :: "char \<Rightarrow> bool" where
  "ident_char c \<longleftrightarrow> ident_start c \<or> c \<in> set ''0123456789''"

definition is_identifier :: "string \<Rightarrow> bool" where
  "is_identifier s \<longleftrightarrow> (case s of [] \<Rightarrow> False | c # cs \<Rightarrow> ident_start c \<and> list_all ident_char cs)"

text \<open>Names that are not plain variables: constants, operators, and the globals of the
  default namespace.\<close>

definition reserved_names :: "string list" where
  "reserved_names =
     [''true'', ''false'', ''none'', ''True'', ''False'', ''None'', ''not'', ''and'', ''or'',
      ''in'', ''is'', ''if'', ''else'', ''range'', ''dict'', ''lipsum'', ''cycler'', ''joiner'',
      ''namespace'', ''self'', ''loop'', ''super'', ''varargs'', ''kwargs'', ''caller'']"

definition strip :: "string \<Rightarrow> string" where
  "strip s = rev (dropWhile (\<lambda>c. c = CHR '' '') (rev (dropWhile (\<lambda>c. c = CHR '' '') s)))"

definition parse_expr :: "string \<Rightarrow> node option" where
  "parse_expr e =
     (case map strip (split_on CHR ''|'' e) of
        [] \<Rightarrow> None
      | p # filters \<Rightarrow>
          (case map strip (split_on CHR ''.'' p) of
             [] \<Rightarrow> None
           | var # attrs \<Rightarrow>
               if is_identifier var \<and> var \<notin> set reserved_names \<and> list_all is_identifier attrs
                  \<and> list_all is_identifier filters
               then Some (Output (var # attrs) filters)
               else None))"

definition printable :: "char \<Rightarrow> bool" where
  "printable c \<longleftrightarrow> 32 \<le> (of_char c :: nat) \<and> (of_char c :: nat) < 127"

text \<open>
  The scanner: \<open>in_expr\<close> says whether the text read so far (\<open>acc\<close>, reversed) lies inside
  \<open>{{ }}\<close>. Statement and comment blocks are outside the modelled part.
\<close>

fun scan :: "bool \<Rightarrow> string \<Rightarrow> string \<Rightarrow> node list option" where
  "scan in_expr acc [] = (if in_expr then None else Some [Text (rev acc)])"
| "scan in_expr acc [c] =
     (if in_expr \<or> \<not> printable c then None else Some [Text (rev (c # acc))])"
| "scan in_expr acc (c # d # cs) =
     (if \<not> printable c then None
      else if in_expr then
        (if c = CHR ''}'' \<and> d = CHR ''}'' then
           (case (parse_expr (rev acc), scan False [] cs) of
              (Some n, Some ns) \<Rightarrow> Some (n # ns)
            | _ \<Rightarrow> None)
         else if c = CHR ''{'' \<or> c = CHR ''}'' then None
         else scan True (c # acc) (d # cs))
      else
        (if c = CHR ''{'' \<and> d = CHR ''{'' then
           map_option (\<lambda>ns. Text (rev acc) # ns) (scan True [] cs)
         else if c = CHR ''{'' \<and> (d = CHR ''%'' \<or> d = CHR ''#'') then None
         else scan False (c # acc) (d # cs)))"

definition parse_template :: "string \<Rightarrow> node list option" where
  "parse_template source = scan False [] source"

subsection \<open>Evaluating a template\<close>

text \<open>A value in an expression; an undefined one carries the message it fails with when
  an attribute of it is asked for.\<close>

datatype jvalue = JVal pyval | JMarkup string | JUndefined string

text \<open>
  \<open>a.b\<close> asks the object for the attribute \<open>b\<close> first and for the key \<open>b\<close> when it has no
  such attribute. A dictionary has its methods and the names of the form \<open>__x__\<close> as
  attributes: a template that asks for one of them lies outside the modelled part.
\<close>

definition dict_methods :: "string list" where
  "dict_methods =
     [''clear'', ''copy'', ''fromkeys'', ''get'', ''items'', ''keys'', ''pop'', ''popitem'',
      ''setdefault'', ''update'', ''values'']"

definition dunder :: "string \<Rightarrow> bool" where
  "dunder a \<longleftrightarrow> take 2 a = ''__'' \<and> take 2 (rev a) = ''__''"

fun walk :: "jvalue \<Rightarrow> string list \<Rightarrow> (py_exception + jvalue) option" where
  "walk v [] = Some (Inr v)"
| "walk (JVal (PDict d)) (a # attrs) =
     (if a \<in> set dict_methods \<or> dunder a then None
      else (case map_of d a of
              Some v \<Rightarrow> walk (JVal v) attrs
            | None \<Rightarrow>
                walk (JUndefined (sq @ ''dict object'' @ sq @ '' has no attribute '' @ sq @ a @ sq))
                  attrs))"
| "walk (JUndefined m) (a # attrs) = Some (Inl (TemplateError m))"
| "walk v (a # attrs) = None"

definition resolve :: "(string \<times> pyval) list \<Rightarrow> string list \<Rightarrow> (py_exception + jvalue) option" where
  "resolve ctx path =
     (case path of
        [] \<Rightarrow> None
      | n # attrs \<Rightarrow>
          walk (case map_of ctx n of
                  Some v \<Rightarrow> JVal v
                | None \<Rightarrow> JUndefined (sq @ n @ sq @ '' is undefined''))
            attrs)"

text \<open>
  Applying one filter. \<open>safe\<close> is built in and marks the text as markup;
  \<open>format_currency\<close> is the service's filter, known only to an environment that
  registers it. The filter formats what it is given as a float: an integer that a float
  holds exactly and a boolean are converted, a string and \<open>None\<close> have no such format.
\<close>

definition known_filter :: "jinja_env \<Rightarrow> string \<Rightarrow> bool option" where
  "known_filter env f =
     (if f = ''safe'' \<or> f \<in> set (custom_filters env) then Some True
      else if f \<in> {''b64encode'', ''format_currency'', ''format_date''} then Some False
      else None)"

definition apply_filter :: "string \<Rightarrow> jvalue \<Rightarrow> (py_exception + jvalue) option" where
  "apply_filter f v =
     (if f = ''safe'' then
        (case v of
           JMarkup m \<Rightarrow> Some (Inr (JMarkup m))
         | JUndefined m \<Rightarrow> Some (Inr (JMarkup []))
         | JVal (Scalar s) \<Rightarrow> Some (Inr (JMarkup (py_str s)))
         | _ \<Rightarrow> None)
      else if f = ''format_currency'' then
        (case v of
           JVal (PFloat x) \<Rightarrow> Some (Inr (JVal (Scalar (PStr (format_currency x ''USD'')))))
         | JVal (Scalar (PInt i)) \<Rightarrow>
             if \<bar>i\<bar> \<le> 2 ^ 53
             then Some (Inr (JVal (Scalar (PStr (format_currency (Finite (of_int i)) ''USD'')))))
             else None
         | JVal (Scalar (PBool b)) \<Rightarrow>
             Some (Inr (JVal (Scalar (PStr (format_currency (Finite (if b then 1 else 0)) ''USD'')))))
         | JVal (Scalar (PStr s)) \<Rightarrow>
             Some (Inl (ValueError (''Unknown format code '' @ sq @ ''f'' @ sq @
                                    '' for object of type '' @ sq @ ''str'' @ sq)))
         | JVal (Scalar PNone) \<Rightarrow>
             Some (Inl (TypeError ''unsupported format string passed to NoneType.__format__''))
         | _ \<Rightarrow> None)
      else None)"

fun apply_filters :: "string list \<Rightarrow> jvalue \<Rightarrow> (py_exception + jvalue) option" where
  "apply_filters [] v = Some (Inr v)"
| "apply_filters (f # fs) v =
     (case apply_filter f v of
        Some (Inr v') \<Rightarrow> apply_filters fs v'
      | r \<Rightarrow> r)"

text \<open>The text an output contributes: markup as it is, anything else through \<open>str\<close> and,
  under \<open>autoescape\<close>, through \<open>escape\<close>.\<close>

definition emit :: "jinja_env \<Rightarrow> jvalue \<Rightarrow> string option" where
  "emit env v =
     (case v of
        JUndefined m \<Rightarrow> Some []
      | JMarkup m \<Rightarrow> Some m
      | JVal (Scalar s) \<Rightarrow> Some (if autoescape env then escape (py_str s) else py_str s)
      | _ \<Rightarrow> None)"

definition render_node ::
  "jinja_env \<Rightarrow> (string \<times> pyval) list \<Rightarrow> node \<Rightarrow> (py_exception + string) option" where
  "render_node env ctx n =
     (case n of
        Text s \<Rightarrow> Some (Inr s)
      | Output path filters \<Rightarrow>
          (case resolve ctx path of
             None \<Rightarrow> None
           | Some (Inl e) \<Rightarrow> Some (Inl e)
           | Some (Inr v) \<Rightarrow>
               (case apply_filters filters v of
                  None \<Rightarrow> None
                | Some (Inl e) \<Rightarrow> Some (Inl e)
                | Some (Inr v') \<Rightarrow> map_option Inr (emit env v'))))"

fun render_nodes ::
  "jinja_env \<Rightarrow> (string \<times> pyval) list \<Rightarrow> node list \<Rightarrow> (py_exception + string) option" where
  "render_nodes env ctx [] = Some (Inr [])"
| "render_nodes env ctx (n # ns) =
     (case render_node env ctx n of
        Some (Inr s) \<Rightarrow>
          (case render_nodes env ctx ns of
             Some (Inr t) \<Rightarrow> Some (Inr (s @ t))
           | r \<Rightarrow> r)
      | r \<Rightarrow> r)"

text \<open>The filters of a template are looked up when it is compiled, before anything is
  rendered.\<close>

fun filters_of :: "node \<Rightarrow> string list" where
  "filters_of (Text s) = []"
| "filters_of (Output path filters) = filters"

fun check_filters :: "jinja_env \<Rightarrow> string list \<Rightarrow> (py_exception + unit) option" where
  "check_filters env [] = Some (Inr ())"
| "check_filters env (f # fs) =
     (case known_filter env f of
        None \<Rightarrow> None
      | Some False \<Rightarrow> Some (Inl (TemplateError (''No filter named '' @ sq @ f @ sq @ ''.'')))
      | Some True \<Rightarrow> check_filters env fs)"

definition render_source ::
  "jinja_env \<Rightarrow> string \<Rightarrow> (string \<times> pyval) list \<Rightarrow> (py_exception + string) option" where
  "render_source env source ctx =
     (case parse_template source of
        None \<Rightarrow> None
      | Some nodes \<Rightarrow>
          (case check_filters env (concat (map filters_of nodes)) of
             None \<Rightarrow> None
           | Some (Inl e) \<Rightarrow> Some (Inl e)
           | Some (Inr _) \<Rightarrow> render_nodes env ctx nodes))"

section \<open>EnhancedPDFService: \<open>generate_pdf\<close>\<close>

text \<open>
  The libraries the service calls are parameters: Jinja2's rendering of a template source
  in an environment, the PNG image the QR code library draws for a text, and WeasyPrint's
  \<open>write_pdf\<close> for a markup and a stylesheet. Each returns its result or the exception it
  raises.
\<close>

record externals =
  jinja_render :: "jinja_env \<Rightarrow> string \<Rightarrow> (string \<times> pyval) list \<Rightarrow> py_exception + string"
  qr_png :: "string \<Rightarrow> py_exception + byte list"
  write_pdf :: "string \<Rightarrow> string \<Rightarrow> py_exception + byte list"

text \<open>Truth value of an optional string or list argument: \<open>None\<close> and the empty one are
  false.\<close>

definition nonempty :: "'a list option \<Rightarrow> bool" where
  "nonempty x = (case x of Some (y # ys) \<Rightarrow> True | _ \<Rightarrow> False)"

definition generate_qr_code :: "externals \<Rightarrow> string \<Rightarrow> py_exception + string" where
  "generate_qr_code ext data =
     (case qr_png ext data of
        Inl e \<Rightarrow> Inl e
      | Inr img_bytes \<Rightarrow> Inr (''data:image/png;base64,'' @ b64encode img_bytes))"

text \<open>\<open>bytes.decode\<close> of a template file, and \<open>str.encode\<close>: a text is kept as its UTF-8
  bytes.\<close>

definition decode :: "byte list \<Rightarrow> string" where
  "decode bs = map (\<lambda>b. char_of (unat b)) bs"

definition encode :: "string \<Rightarrow> byte list" where
  "encode s = map (\<lambda>c. of_nat (of_char c)) s"

text \<open>
  \<open>_render_template\<close>: the loader reads the template from the templates directory
  (\<open>TemplateNotFound\<close>, whose message is the name, when it is not there); whatever is raised
  comes out as a \<open>ValueError\<close>.
\<close>

definition render_template ::
  "externals \<Rightarrow> string \<Rightarrow> filesystem \<Rightarrow> string \<Rightarrow> (string \<times> pyval) list \<Rightarrow>
   py_exception + string" where
  "render_template ext templates_dir fs template_name context =
     (case (case fs (path_join templates_dir template_name) of
              Some (File b) \<Rightarrow> jinja_render ext service_env (decode b) context
            | _ \<Rightarrow> Inl (TemplateError template_name)) of
        Inl e \<Rightarrow> Inl (ValueError (''Template rendering failed: '' @ exc_str e))
      | Inr html \<Rightarrow> Inr html)"

text \<open>The first part of \<open>generate_pdf\<close>, up to the watermark: the context handed to the
  template.\<close>

definition build_context ::
  "externals \<Rightarrow> settings \<Rightarrow> filesystem \<Rightarrow> (string \<times> pyval) list option \<Rightarrow> asset list option \<Rightarrow>
   (string \<times> scalar) list option \<Rightarrow> bool \<Rightarrow> string option \<Rightarrow> string option \<Rightarrow>
   py_exception + (string \<times> pyval) list" where
  "build_context ext settings fs context assets branding_config include_qr qr_data watermark_text =
     (let context = (case context of Some c \<Rightarrow> c | None \<Rightarrow> []);
          branding_config = (case branding_config of Some c \<Rightarrow> c | None \<Rightarrow> [])
      in
      case (if nonempty assets
            then (case process_assets fs (the assets) of
                    Inl e \<Rightarrow> Inl e
                  | Inr processed \<Rightarrow> Inr (dict_set ''assets'' (PDict processed) context))
            else Inr context) of
        Inl e \<Rightarrow> Inl e
      | Inr context \<Rightarrow>
          (case (if include_qr \<and> nonempty qr_data
                 then (case generate_qr_code ext (the qr_data) of
                         Inl e \<Rightarrow> Inl e
                       | Inr url \<Rightarrow> Inr (dict_set ''qr_code'' (Scalar (PStr url)) context))
                 else Inr context) of
             Inl e \<Rightarrow> Inl e
           | Inr context \<Rightarrow>
               let context =
                     dict_set ''branding''
                       (PDict (map (\<lambda>(k, v). (k, Scalar v))
                                 (get_branding_config settings branding_config)))
                       context
               in
               if nonempty watermark_text \<or> truthy (dict_get branding_config ''show_watermark'' PNone)
               then
                 Inr (dict_set ''watermark''
                        (Scalar (if nonempty watermark_text then PStr (the watermark_text)
                                 else dict_get branding_config ''watermark_text'' (PStr ''DRAFT'')))
                        context)
               else Inr context))"

text \<open>The block \<^verbatim>\<open># Render HTML\<close>.\<close>

definition render_html ::
  "externals \<Rightarrow> string \<Rightarrow> filesystem \<Rightarrow> string option \<Rightarrow> string option \<Rightarrow>
   (string \<times> pyval) list \<Rightarrow> py_exception + string" where
  "render_html ext templates_dir fs template_name html_content context =
     (if nonempty template_name then
        render_template ext templates_dir fs (the template_name) context
      else if nonempty html_content then
        jinja_render ext template_class_env (the html_content) context
      else Inl (ValueError ''Either template_name or html_content must be provided''))"

definition generate_pdf ::
  "externals \<Rightarrow> settings \<Rightarrow> string \<Rightarrow> filesystem \<Rightarrow> string option \<Rightarrow> string option \<Rightarrow>
   (string \<times> pyval) list option \<Rightarrow> string option \<Rightarrow> asset list option \<Rightarrow>
   (string \<times> scalar) list option \<Rightarrow> bool \<Rightarrow> string option \<Rightarrow> string option \<Rightarrow>
   py_exception + byte list" where
  "generate_pdf ext settings templates_dir fs template_name html_content context css_content
     assets branding_config include_qr qr_data watermark_text =
     (case build_context ext settings fs context assets branding_config include_qr qr_data
             watermark_text of
        Inl e \<Rightarrow> Inl e
      | Inr context \<Rightarrow>
          (case render_html ext templates_dir fs template_name html_content context of
             Inl e \<Rightarrow> Inl e
           | Inr html \<Rightarrow>
               let css = generate_css settings
                           (case branding_config of Some c \<Rightarrow> c | None \<Rightarrow> []) css_content
               in write_pdf ext html css))"

section \<open>The routers that generate documents\<close>

text \<open>
  The rows of the database the two endpoints read. A template row has the columns of
  \<open>DocumentTemplate\<close> that the endpoints use (\<open>template_name\<close> is its \<open>name\<close>); an asset
  row is an \<open>asset\<close> with every column present; an order carries its customer, its items
  and its invoice, if it has one. An invoice is the dictionary of the columns it was
  created with.
\<close>

record document_template =
  template_name :: string
  document_type :: string
  html_content :: string
  css_content :: "string option"
  branding_config :: "(string \<times> scalar) list option"

record customer =
  full_name :: scalar
  email :: scalar

record order_item =
  product_sku :: scalar
  quantity :: scalar
  unit_price :: pyval

record order =
  order_id :: int
  customer :: "customer option"
  total_amount :: pyval
  items :: "order_item list"
  created_at :: pyval
  invoice :: "(string \<times> pyval) list option"

record database =
  templates :: "int \<rightharpoonup> document_template"
  template_assets :: "int \<Rightarrow> asset list"
  orders :: "int \<rightharpoonup> order"

datatype http_error = HTTPException nat string

text \<open>\<open>str\<close> of an \<open>HTTPException\<close>: the status code, a colon and the detail.\<close>

fun http_str :: "http_error \<Rightarrow> string" where
  "http_str (HTTPException code detail) = nat_digits code @ '': '' @ detail"

text \<open>Truth value of a JSON value.\<close>

fun truthy_val :: "pyval \<Rightarrow> bool" where
  "truthy_val (Scalar s) = truthy s"
| "truthy_val (PFloat x) = (x \<noteq> Finite 0 \<and> x \<noteq> NegZero)"
| "truthy_val (PDateTime t) = True"
| "truthy_val (PList xs) = (xs \<noteq> [])"
| "truthy_val (PDict d) = (d \<noteq> [])"

text \<open>
  The dictionary the endpoints build for an asset row: the seven keys are always
  present (a column without a value gives \<open>None\<close>), \<open>name\<close> is not among them, and an
  empty or missing display configuration becomes \<open>{}\<close>.
\<close>

fun present :: "'a entry \<Rightarrow> 'a entry" where
  "present Absent = Null"
| "present e = e"

definition asset_dict :: "asset \<Rightarrow> asset" where
  "asset_dict row =
     \<lparr>asset_type = present (asset_type row),
      file_path = present (file_path row),
      mime_type = present (mime_type row),
      name = Absent,
      width = present (width row),
      height = present (height row),
      is_default = present (is_default row),
      display_config =
        (case display_config row of
           Val c \<Rightarrow> if truthy_val c then Val c else Val (PDict [])
         | _ \<Rightarrow> Val (PDict []))\<rparr>"

subsection \<open>\<open>templates_router.generate_document\<close>\<close>

record generation_request =
  template_id :: int
  data :: "(string \<times> pyval) list"
  output_filename :: "string option"

record generation_response =
  success :: bool
  pdf_url :: "string option"
  pdf_size :: "nat option"
  message :: "string option"
  document_id :: "int option"

definition generation_failed :: "py_exception \<Rightarrow> generation_response" where
  "generation_failed e =
     \<lparr>success = False, pdf_url = None, pdf_size = None,
      message = Some (''Document generation failed: '' @ exc_str e), document_id = None\<rparr>"

text \<open>
  The environment of an endpoint: the libraries, the settings, the templates directory of
  the PDF service, the storage service, the disk it writes to and the clock.
\<close>

record app =
  libraries :: externals
  app_settings :: settings
  templates_dir :: string
  storage :: storage_service
  app_disk :: disk
  clock :: datetime

text \<open>\<^verbatim>\<open>request.output_filename or f"{template.name}_{template.document_type}"\<close>\<close>

definition document_filename :: "generation_request \<Rightarrow> document_template \<Rightarrow> string" where
  "document_filename request template =
     (if nonempty (output_filename request) then the (output_filename request)
      else template_name template @ ''_'' @ document_type template)"

text \<open>The blocks \<^verbatim>\<open># Get template assets\<close> and \<^verbatim>\<open># Generate PDF\<close> of
  \<open>generate_document\<close>.\<close>

definition template_pdf ::
  "app \<Rightarrow> database \<Rightarrow> filesystem \<Rightarrow> generation_request \<Rightarrow> document_template \<Rightarrow>
   py_exception + byte list" where
  "template_pdf app db fs request template =
     (let assets_list = map asset_dict (template_assets db (template_id request)) in
      generate_pdf (libraries app) (app_settings app) (templates_dir app) fs
        None (Some (html_content template)) (Some (data request))
        (css_content template) (Some assets_list)
        (Some (case branding_config template of Some c \<Rightarrow> c | None \<Rightarrow> []))
        False None None)"

text \<open>
  \<open>generate_document\<close>: what the caller receives, an HTTP error or a generation result,
  and the file system the call leaves behind.
\<close>

definition generate_document ::
  "app \<Rightarrow> database \<Rightarrow> filesystem \<Rightarrow> generation_request \<Rightarrow>
   (http_error + generation_response) \<times> filesystem" where
  "generate_document app db fs request =
     (case templates db (template_id request) of
        None \<Rightarrow> (Inl (HTTPException 404 ''Template not found''), fs)
      | Some template \<Rightarrow>
          (case template_pdf app db fs request template of
             Inl e \<Rightarrow> (Inr (generation_failed e), fs)
           | Inr pdf_bytes \<Rightarrow>
               let filename = document_filename request template in
               case save_document (app_disk app) (storage app) (clock app) fs pdf_bytes
                      filename of
                 (Inl e, fs') \<Rightarrow> (Inr (generation_failed e), fs')
               | (Inr pdf_path, fs') \<Rightarrow>
                   (Inr \<lparr>success = True, pdf_url = Some pdf_path,
                         pdf_size = Some (length pdf_bytes),
                         message = Some ''Document generated successfully'',
                         document_id = None\<rparr>, fs')))"

subsection \<open>\<open>documents.generate_invoice\<close>\<close>

definition invoice_data :: "order \<Rightarrow> (string \<times> pyval) list" where
  "invoice_data order =
     [(''customer_name'',
         Scalar (case customer order of Some c \<Rightarrow> full_name c | None \<Rightarrow> PStr ''Guest'')),
      (''customer_email'', Scalar (case customer order of Some c \<Rightarrow> email c | None \<Rightarrow> PStr [])),
      (''total_amount'', total_amount order),
      (''subtotal'', total_amount order),
      (''items'',
         PList (map (\<lambda>item. PDict [(''name'', Scalar (product_sku item)),
                                     (''quantity'', Scalar (quantity item)),
                                     (''unit_price'', unit_price item)])
                  (items order))),
      (''invoice_number'', Scalar (PStr (''INV-'' @ int_str (order_id order)))),
      (''issue_date'', created_at order),
      (''due_date'', created_at order),
      (''currency'', Scalar (PStr ''USD''))]"

text \<open>
  Step 4, the first part of the \<open>try\<close>: the PDF for the order, or the text of whatever
  was raised. A template id that is \<open>None\<close> or zero is false and selects the default
  template.
\<close>

definition invoice_bytes ::
  "app \<Rightarrow> database \<Rightarrow> filesystem \<Rightarrow> order \<Rightarrow> int option \<Rightarrow> string + byte list" where
  "invoice_bytes app db fs order tid =
     (case (if tid = Some 0 then None else tid) of
        None \<Rightarrow>
          (case generate_pdf (libraries app) (app_settings app) (templates_dir app) fs
                  (Some ''invoice_modern.html'') None (Some (invoice_data order))
                  None None None False None None of
             Inl e \<Rightarrow> Inl (exc_str e)
           | Inr b \<Rightarrow> Inr b)
      | Some t \<Rightarrow>
          (case templates db t of
             None \<Rightarrow> Inl (http_str (HTTPException 404 ''Template not found''))
           | Some template \<Rightarrow>
               (case generate_pdf (libraries app) (app_settings app) (templates_dir app)
                       fs None (Some (html_content template))
                       (Some (invoice_data order)) (css_content template)
                       (Some (map asset_dict (template_assets db t)))
                       (Some (case branding_config template of
                                Some c \<Rightarrow> c | None \<Rightarrow> []))
                       False None None of
                  Inl e \<Rightarrow> Inl (exc_str e)
                | Inr b \<Rightarrow> Inr b)))"

text \<open>
  Steps 4 and 5, the body of the \<open>try\<close>: the URL of the stored PDF, or the text of
  whatever was raised, and the file system left behind.
\<close>

definition invoice_pdf ::
  "app \<Rightarrow> database \<Rightarrow> filesystem \<Rightarrow> order \<Rightarrow> int option \<Rightarrow> (string + string) \<times> filesystem" where
  "invoice_pdf app db fs order tid =
     (case invoice_bytes app db fs order tid of
        Inl m \<Rightarrow> (Inl m, fs)
      | Inr pdf_bytes \<Rightarrow>
          (case save_document (app_disk app) (storage app) (clock app) fs pdf_bytes
                  (''INV-'' @ int_str (order_id order)) of
             (Inl e, fs') \<Rightarrow> (Inl (exc_str e), fs')
           | (Inr pdf_path, fs') \<Rightarrow>
               (Inr (''/api/v1/documents/files/'' @ last (split_on CHR ''/'' pdf_path)), fs')))"

definition generate_invoice ::
  "app \<Rightarrow> database \<Rightarrow> filesystem \<Rightarrow> int \<Rightarrow> int option \<Rightarrow>
   (http_error + (string \<times> pyval) list \<times> database) \<times> filesystem" where
  "generate_invoice app db fs oid tid =
     (case orders db oid of
        None \<Rightarrow> (Inl (HTTPException 404 ''Order not found''), fs)
      | Some order \<Rightarrow>
          (case invoice order of
             Some existing \<Rightarrow> (Inr (existing, db), fs)
           | None \<Rightarrow>
               (case invoice_pdf app db fs order tid of
                  (Inl m, fs') \<Rightarrow> (Inl (HTTPException 500 (''PDF generation failed: '' @ m)), fs')
                | (Inr url, fs') \<Rightarrow>
                    let db_invoice =
                          [(''order_id'', Scalar (PInt (order_id order))),
                           (''invoice_number'',
                              Scalar (PStr (''INV-'' @ int_str (order_id order)))),
                           (''pdf_url'', Scalar (PStr url)),
                           (''status'', Scalar (PStr ''issued'')),
                           (''template_id'',
                              Scalar (case tid of Some t \<Rightarrow> PInt t | None \<Rightarrow> PNone))]
                    in (Inr (db_invoice,
                             db\<lparr>orders := (orders db)(oid \<mapsto> order\<lparr>invoice := Some db_invoice\<rparr>)\<rparr>),
                        fs'))))"

section \<open>Concrete inputs\<close>


definition noon :: datetime where
  "noon = \<lparr>year = 2024, month = 3, day = 9, hour = 12, minute = 0, second = 0, microsecond = 0\<rparr>"

definition uploads_fs :: filesystem where
  "uploads_fs = [''uploads/assets'' \<mapsto> Directory, ''uploads/documents'' \<mapsto> Directory]"


definition bytes_25302 :: "byte list" where
  "bytes_25302 = [0x32, 0x35, 0x33, 0x30, 0x32]"

definition bytes_82945 :: "byte list" where
  "bytes_82945 = [0x38, 0x32, 0x39, 0x34, 0x35]"

definition bytes_3447 :: "byte list" where
  "bytes_3447 = [0x33, 0x34, 0x34, 0x37]"

definition one_second_later :: datetime where
  "one_second_later = noon\<lparr>second := 1\<rparr>"


definition logo_asset :: asset where
  "logo_asset =
     \<lparr>asset_type = Val ''logo'', file_path = Val ''uploads/assets/logo/a.png'',
      mime_type = Val ''image/png'', name = Absent, width = Val 120, height = Val 40,
      is_default = Val True, display_config = Val (PDict [])\<rparr>"

definition image_asset :: asset where
  "image_asset =
     \<lparr>asset_type = Val ''image'', file_path = Val ''uploads/assets/image/b.gif'',
      mime_type = Val ''image/gif'', name = Absent, width = Null, height = Null,
      is_default = Val False, display_config = Val (PDict [])\<rparr>"

definition missing_asset :: asset where
  "missing_asset =
     \<lparr>asset_type = Val ''signature'', file_path = Val ''uploads/assets/signature/gone.png'',
      mime_type = Val ''image/png'', name = Absent, width = Null, height = Null,
      is_default = Val False, display_config = Val (PDict [])\<rparr>"

definition assets_fs :: filesystem where
  "assets_fs =
     [''uploads/assets/logo/a.png'' \<mapsto> File [0x89, 0x50, 0x4E, 0x47],
      ''uploads/assets/image/b.gif'' \<mapsto> File [0x47, 0x49, 0x46]]"

definition red_secondary :: "(string \<times> scalar) list" where
  "red_secondary = [(''secondary_color'', PStr ''#DC2626'')]"

definition green_primary :: "(string \<times> scalar) list" where
  "green_primary = [(''primary_color'', PStr ''#166534''), (''logo_width'', PInt 200)]"

text \<open>
  Libraries for the examples: Jinja2 is the modelled part of it, there is no QR code
  library, and the bytes of the markup stand for the PDF that WeasyPrint would write.
\<close>

definition fragment_externals :: externals where
  "fragment_externals =
     \<lparr>jinja_render =
        (\<lambda>env source ctx.
           case render_source env source ctx of
             Some r \<Rightarrow> r
           | None \<Rightarrow> Inl (TemplateError ''outside the modelled part'')),
      qr_png = (\<lambda>data. Inl (QRCodeError ''no QR code library'')),
      write_pdf = (\<lambda>html css. Inr (encode html))\<rparr>"

text \<open>Libraries of which WeasyPrint rejects every document.\<close>

definition failing_externals :: externals where
  "failing_externals =
     fragment_externals\<lparr>write_pdf := (\<lambda>html css. Inl (WeasyPrintError ''layout failed''))\<rparr>"

definition folder_asset :: asset where
  "folder_asset =
     \<lparr>asset_type = Val ''image'', file_path = Val ''uploads/assets'',
      mime_type = Absent, name = Absent, width = Absent, height = Absent,
      is_default = Absent, display_config = Absent\<rparr>"

definition acme_context :: "(string \<times> pyval) list" where
  "acme_context =
     [(''customer'', PDict [(''name'', Scalar (PStr ''Acme''))]), (''total'', PFloat (Finite (2469 / 2)))]"

definition acme_markup :: string where
  "acme_markup = ''Hello {{customer.name}}, total {{total|format_currency}}''"

definition acme_fs :: filesystem where
  "acme_fs = [''app/templates/acme.html'' \<mapsto> File (encode acme_markup)]"

definition tom_context :: "(string \<times> pyval) list" where
  "tom_context = [(''name'', Scalar (PStr ''<b>Tom & Co</b>''))]"

definition greeting_fs :: filesystem where
  "greeting_fs =
     [''app/templates/greeting.html'' \<mapsto>
        File (encode ''<p>{{ name }}</p>'')]"

text \<open>A disk that carries every write through, and one with no space left.\<close>

definition sound_disk :: disk where
  "sound_disk = (\<lambda>p b. None)"

definition full_disk :: disk where
  "full_disk = (\<lambda>p b. Some (WriteFails 0 ''[Errno 28] No space left on device''))"

definition example_app :: app where
  "example_app =
     \<lparr>libraries = fragment_externals, app_settings = default_settings,
      templates_dir = ''app/templates'', storage = storage_service_default,
      app_disk = sound_disk, clock = noon\<rparr>"

definition failing_app :: app where
  "failing_app = example_app\<lparr>libraries := failing_externals\<rparr>"

definition full_disk_app :: app where
  "full_disk_app = example_app\<lparr>app_disk := full_disk\<rparr>"

definition plain_template :: document_template where
  "plain_template =
     \<lparr>template_name = ''plain'', document_type = ''invoice'', html_content = ''<p>Invoice</p>'',
      css_content = None, branding_config = None\<rparr>"

definition guest_order :: order where
  "guest_order =
     \<lparr>order_id = 7, customer = None, total_amount = PFloat (Finite 10), items = [],
      created_at = PDateTime noon, invoice = None\<rparr>"

definition example_db :: database where
  "example_db =
     \<lparr>templates = [1 \<mapsto> plain_template], template_assets = (\<lambda>t. []),
      orders = [7 \<mapsto> guest_order]\<rparr>"

definition plain_request :: generation_request where
  "plain_request = \<lparr>template_id = 1, data = [], output_filename = None\<rparr>"

definition unknown_request :: generation_request where
  "unknown_request = \<lparr>template_id = 2, data = [], output_filename = None\<rparr>"
section \<open>Dictionaries\<close>

lemma map_of_dict_set: "map_of (dict_set k v d) = (map_of d)(k \<mapsto> v)"
  by (induction d) (auto simp: fun_eq_iff)

lemma dict_get_dict_set:
  "dict_get (dict_set k v d) k' dflt = (if k' = k then v else dict_get d k' dflt)"
  by (simp add: dict_get_def map_of_dict_set)

section \<open>Numerals and decimal text\<close>

lemma upt_from_0: "[0..<numeral n] = 0 # [Suc 0..<numeral n]"
  by (simp add: upt_rec [of 0])

lemma upt_from_1:
  "[Suc 0..<numeral n] = (if 1 < (numeral n :: nat) then Suc 0 # [2..<numeral n] else [])"
  by (subst upt_rec) (simp add: numeral_2_eq_2)

lemma replicate_numeral: "replicate (numeral n) x = x # replicate (pred_numeral n) x"
  by (simp add: numeral_eq_Suc)

lemma digit_val_digit_char: "d < 10 \<Longrightarrow> digit_val (digit_char d) = d"
proof -
  assume "d < 10"
  then have "d \<in> {0, 1, 2, 3, 4, 5, 6, 7, 8, 9}" by auto
  then show ?thesis
    by (auto simp: digit_val_def digit_char_def upt_from_0 upt_from_1)
qed

lemma dec_val_snoc: "dec_val (s @ [c]) = 10 * dec_val s + digit_val c"
  by (simp add: dec_val_def)

lemma dec_val_nat_digits: "dec_val (nat_digits n) = n"
proof (induction n rule: nat_digits.induct)
  case (1 n)
  show ?case
  proof (cases "n < 10")
    case True
    then show ?thesis
      by (subst nat_digits.simps) (simp add: dec_val_def digit_val_digit_char)
  next
    case False
    have "digit_char n = digit_char (n mod 10)"
      by (simp add: digit_char_def)
    then have "digit_val (digit_char n) = n mod 10"
      by (simp add: digit_val_digit_char)
    with False 1 show ?thesis
      by (subst nat_digits.simps) (simp add: dec_val_snoc)
  qed
qed

lemma dec_val_zeros: "dec_val (replicate k CHR ''0'' @ s) = dec_val s"
proof -
  have "foldl (\<lambda>a c. 10 * a + digit_val c) 0 (replicate k CHR ''0'') = 0"
    by (induction k) (simp_all add: digit_val_def upt_from_0 upt_from_1)
  then show ?thesis by (simp add: dec_val_def)
qed

lemma dec_val_zfill: "dec_val (zfill k (nat_digits n)) = n"
  by (simp add: zfill_def dec_val_zeros dec_val_nat_digits)

lemma length_nat_digits: "n < 10 ^ k \<Longrightarrow> 0 < k \<Longrightarrow> length (nat_digits n) \<le> k"
proof (induction n arbitrary: k rule: nat_digits.induct)
  case (1 n)
  show ?case
  proof (cases "n < 10")
    case True
    with 1(3) show ?thesis by (subst nat_digits.simps) simp
  next
    case False
    with 1(2) have "1 < k" by (cases k; cases "k - 1") auto
    then obtain k' where k: "k = Suc k'" "0 < k'" by (cases k) auto
    from 1(2) k have "n div 10 < 10 ^ k'"
      by (simp add: less_mult_imp_div_less mult.commute)
    with 1(1) [OF False _ k(2)] have "length (nat_digits (n div 10)) \<le> k'" by simp
    with False k show ?thesis by (subst nat_digits.simps) simp
  qed
qed

lemma length_zfill: "length s \<le> k \<Longrightarrow> length (zfill k s) = k"
  by (simp add: zfill_def)

lemma length_field: "n < 10 ^ k \<Longrightarrow> 0 < k \<Longrightarrow> length (zfill k (nat_digits n)) = k"
  by (simp add: length_zfill length_nat_digits)

lemma zfill_inject:
  assumes "zfill k (nat_digits m) = zfill k (nat_digits n)"
  shows "m = n"
proof -
  have "dec_val (zfill k (nat_digits m)) = dec_val (zfill k (nat_digits n))"
    by (simp only: assms)
  then show ?thesis
    by (simp only: dec_val_zfill)
qed

lemma length_strftime_stamp: "in_range t \<Longrightarrow> length (strftime_stamp t) = 15"
  by (simp add: in_range_def strftime_stamp_def length_field)

lemma strftime_stamp_inject:
  assumes "in_range t1" "in_range t2" "strftime_stamp t1 = strftime_stamp t2"
  shows "same_second t1 t2"
proof -
  have l1: "length (zfill 4 (nat_digits (year t1))) = length (zfill 4 (nat_digits (year t2)))"
    "length (zfill 2 (nat_digits (month t1))) = length (zfill 2 (nat_digits (month t2)))"
    "length (zfill 2 (nat_digits (day t1))) = length (zfill 2 (nat_digits (day t2)))"
    "length (zfill 2 (nat_digits (hour t1))) = length (zfill 2 (nat_digits (hour t2)))"
    "length (zfill 2 (nat_digits (minute t1))) = length (zfill 2 (nat_digits (minute t2)))"
    using assms(1,2) by (simp_all add: in_range_def length_field)
  from assms(3) l1 have
    "zfill 4 (nat_digits (year t1)) = zfill 4 (nat_digits (year t2))"
    "zfill 2 (nat_digits (month t1)) = zfill 2 (nat_digits (month t2))"
    "zfill 2 (nat_digits (day t1)) = zfill 2 (nat_digits (day t2))"
    "zfill 2 (nat_digits (hour t1)) = zfill 2 (nat_digits (hour t2))"
    "zfill 2 (nat_digits (minute t1)) = zfill 2 (nat_digits (minute t2))"
    "zfill 2 (nat_digits (second t1)) = zfill 2 (nat_digits (second t2))"
    by (simp_all add: strftime_stamp_def)
  then show ?thesis
    by (auto simp: same_second_def dest: zfill_inject)
qed


section \<open>Properties of StorageService\<close>









section \<open>Evaluating MD5\<close>

text \<open>The digests of three short byte strings, the ASCII texts \<open>25302\<close>, \<open>82945\<close> and
  \<open>3447\<close>; \<open>hashlib\<close> gives the same values.\<close>

lemma words_25302:
  "map (\<lambda>j. le32 (take 4 (drop (4 * j) (md5_pad bytes_25302)))) [0..<16] =
     [808662322, 32818] @ replicate 12 0 @ [40, 0]"
  by (simp add: bytes_25302_def md5_pad_def le_bytes_def upt_from_0 upt_from_1 replicate_numeral)

lemma block_25302:
  "md5_block (0x67452301, 0xefcdab89, 0x98badcfe, 0x10325476) (md5_pad bytes_25302) =
     (0xcb3d767b, 0x374cdd78, 0x6270418a, 0x2138213a)"
  unfolding md5_block_def words_25302
  by (simp add: upt_from_0 upt_from_1 replicate_numeral md5_step_def md5_K_def md5_s_def
      rotl32_def)

lemma length_pad_25302: "length (md5_pad bytes_25302) = 64"
  by (simp add: bytes_25302_def md5_pad_def le_bytes_def)

lemma md5_25302: "md5_hexdigest bytes_25302 = ''7b763dcb78dd4c378a4170623a213821''"
  by (simp add: md5_hexdigest_def md5_digest_def length_pad_25302 block_25302 le_bytes_def
      upt_from_0 upt_from_1 hex_byte_def hex_digit_def)

lemma words_82945:
  "map (\<lambda>j. le32 (take 4 (drop (4 * j) (md5_pad bytes_82945)))) [0..<16] =
     [876163640, 32821] @ replicate 12 0 @ [40, 0]"
  by (simp add: bytes_82945_def md5_pad_def le_bytes_def upt_from_0 upt_from_1 replicate_numeral)

lemma block_82945:
  "md5_block (0x67452301, 0xefcdab89, 0x98badcfe, 0x10325476) (md5_pad bytes_82945) =
     (0xcb3d767b, 0x68f917da, 0x89fff639, 0x20a6ac0c)"
  unfolding md5_block_def words_82945
  by (simp add: upt_from_0 upt_from_1 replicate_numeral md5_step_def md5_K_def md5_s_def
      rotl32_def)

lemma length_pad_82945: "length (md5_pad bytes_82945) = 64"
  by (simp add: bytes_82945_def md5_pad_def le_bytes_def)

lemma md5_82945: "md5_hexdigest bytes_82945 = ''7b763dcbda17f96839f6ff890caca620''"
  by (simp add: md5_hexdigest_def md5_digest_def length_pad_82945 block_82945 le_bytes_def
      upt_from_0 upt_from_1 hex_byte_def hex_digit_def)

lemma words_3447:
  "map (\<lambda>j. le32 (take 4 (drop (4 * j) (md5_pad bytes_3447)))) [0..<16] =
     [926168115, 128] @ replicate 12 0 @ [32, 0]"
  by (simp add: bytes_3447_def md5_pad_def le_bytes_def upt_from_0 upt_from_1 replicate_numeral)

lemma block_3447:
  "md5_block (0x67452301, 0xefcdab89, 0x98badcfe, 0x10325476) (md5_pad bytes_3447) =
     (0xa6241b2e, 0xc1e9f564, 0x2f7b408f, 0x21e8739c)"
  unfolding md5_block_def words_3447
  by (simp add: upt_from_0 upt_from_1 replicate_numeral md5_step_def md5_K_def md5_s_def
      rotl32_def)

lemma length_pad_3447: "length (md5_pad bytes_3447) = 64"
  by (simp add: bytes_3447_def md5_pad_def le_bytes_def)

lemma md5_3447: "md5_hexdigest bytes_3447 = ''2e1b24a664f5e9c18f407b2f9c73e821''"
  by (simp add: md5_hexdigest_def md5_digest_def length_pad_3447 block_3447 le_bytes_def
      upt_from_0 upt_from_1 hex_byte_def hex_digit_def)

section \<open>Properties of the document store\<close>

lemma length_hex: "length (concat (map hex_byte bs)) = 2 * length bs"
  by (induction bs) (simp_all add: hex_byte_def)

lemma length_md5_digest: "length (md5_digest m) = 16"
  by (simp add: md5_digest_def Let_def le_bytes_def split: prod.splits)

lemma length_md5_hexdigest: "length (md5_hexdigest m) = 32"
  by (simp add: md5_hexdigest_def length_hex length_md5_digest)

lemma save_document_path:
  "fst (save_document disk self now fs b f) = Inr p \<Longrightarrow> p = document_path self now b f"
  by (auto simp: save_document_def Let_def split: sum.splits prod.splits)

lemma document_path_split:
  "document_path self now b f =
     (documents_path self @ ''/'' @ path_stem f @ ''_'') @
     (strftime_stamp now @ ''_'' @ take 8 (md5_hexdigest b) @ ''.pdf'')"
  by (simp add: document_path_def path_join_def)

lemma document_path_inject:
  assumes "in_range t1" "in_range t2"
    and "document_path self t1 b1 f1 = document_path self t2 b2 f2"
  shows "strftime_stamp t1 = strftime_stamp t2 \<and>
         take 8 (md5_hexdigest b1) = take 8 (md5_hexdigest b2)"
proof -
  let ?tail = "\<lambda>t b. strftime_stamp t @ ''_'' @ take 8 (md5_hexdigest b) @ ''.pdf''"
  have len: "length (?tail t1 b1) = length (?tail t2 b2)"
    using assms(1,2) by (simp add: length_strftime_stamp length_md5_hexdigest)
  from assms(3) have "?tail t1 b1 = ?tail t2 b2"
    unfolding document_path_split using len by (metis append_eq_append_conv)
  moreover have "length (strftime_stamp t1) = length (strftime_stamp t2)"
    using assms(1,2) by (simp add: length_strftime_stamp)
  ultimately show ?thesis by simp
qed

text \<open>
  C3, as amended. Two calls of \<open>save_document\<close> that return a path, at clock readings in
  range, return different paths whenever the first eight hexadecimal digits of the MD5
  digests of the contents differ, or the clock readings differ in a field from year to
  second; the file names play no part. Different bytes alone do not suffice, and neither do
  clock readings that differ within one second.
\<close>

theorem save_document_paths_distinct:
  assumes "fst (save_document disk1 self t1 fs1 b1 f1) = Inr p1"
    and "fst (save_document disk2 self t2 fs2 b2 f2) = Inr p2"
    and "in_range t1" and "in_range t2"
    and "take 8 (md5_hexdigest b1) \<noteq> take 8 (md5_hexdigest b2) \<or> \<not> same_second t1 t2"
  shows "p1 \<noteq> p2"
proof
  assume "p1 = p2"
  with save_document_path [OF assms(1)] save_document_path [OF assms(2)]
  have "document_path self t1 b1 f1 = document_path self t2 b2 f2"
    by simp
  from document_path_inject [OF assms(3,4) this] strftime_stamp_inject [OF assms(3,4)] assms(5)
  show False by blast
qed

lemma stamp_noon: "strftime_stamp noon = ''20240309_120000''"
  by (simp add: strftime_stamp_def noon_def zfill_def nat_digits.simps digit_char_def)

lemma stamp_later: "strftime_stamp one_second_later = ''20240309_120001''"
  by (simp add: strftime_stamp_def noon_def one_second_later_def zfill_def nat_digits.simps
      digit_char_def)

lemma stem_inv7: "path_stem ''INV-7'' = ''INV-7''"
  by (simp add: path_stem_def path_name_def)

lemma save_25302:
  "fst (save_document sound_disk storage_service_default noon uploads_fs bytes_25302 ''INV-7'') =
     Inr ''uploads/documents/INV-7_20240309_120000_7b763dcb.pdf''"
  by (simp add: save_document_def document_path_def Let_def stamp_noon md5_25302 stem_inv7
      storage_service_default_def path_join_def uploads_fs_def write_file_def sound_disk_def)

lemma save_82945:
  "fst (save_document sound_disk storage_service_default noon uploads_fs bytes_82945 ''INV-7'') =
     Inr ''uploads/documents/INV-7_20240309_120000_7b763dcb.pdf''"
  by (simp add: save_document_def document_path_def Let_def stamp_noon md5_82945 stem_inv7
      storage_service_default_def path_join_def uploads_fs_def write_file_def sound_disk_def)

lemma save_3447:
  "fst (save_document sound_disk storage_service_default noon uploads_fs bytes_3447 ''INV-7'') =
     Inr ''uploads/documents/INV-7_20240309_120000_2e1b24a6.pdf''"
  by (simp add: save_document_def document_path_def Let_def stamp_noon md5_3447 stem_inv7
      storage_service_default_def path_join_def uploads_fs_def write_file_def sound_disk_def)

lemma save_25302_later:
  "fst (save_document sound_disk storage_service_default one_second_later uploads_fs bytes_25302 ''INV-7'') =
     Inr ''uploads/documents/INV-7_20240309_120001_7b763dcb.pdf''"
  by (simp add: save_document_def document_path_def Let_def stamp_later md5_25302 stem_inv7
      storage_service_default_def path_join_def uploads_fs_def write_file_def sound_disk_def)

text \<open>
  C3 as stated fails: the byte strings \<open>25302\<close> and \<open>82945\<close> are different, their MD5 digests
  share the first eight hexadecimal digits \<open>7b763dcb\<close>, and saved under the same name in the
  same second they get the same path.
\<close>

theorem save_document_collision:
  "bytes_25302 \<noteq> bytes_82945 \<and>
   fst (save_document sound_disk storage_service_default noon uploads_fs bytes_25302 ''INV-7'') =
     Inr ''uploads/documents/INV-7_20240309_120000_7b763dcb.pdf'' \<and>
   fst (save_document sound_disk storage_service_default noon uploads_fs bytes_82945 ''INV-7'') =
     Inr ''uploads/documents/INV-7_20240309_120000_7b763dcb.pdf''"
proof -
  have "bytes_25302 \<noteq> bytes_82945"
    by (simp add: bytes_25302_def bytes_82945_def)
  with save_25302 save_82945 show ?thesis
    by blast
qed

theorem save_document_paths_distinct_witness:
  "in_range noon \<and> in_range one_second_later \<and>
   take 8 (md5_hexdigest bytes_25302) \<noteq> take 8 (md5_hexdigest bytes_3447) \<and>
   \<not> same_second noon one_second_later \<and>
   ''uploads/documents/INV-7_20240309_120000_7b763dcb.pdf'' \<noteq>
     ''uploads/documents/INV-7_20240309_120000_2e1b24a6.pdf'' \<and>
   ''uploads/documents/INV-7_20240309_120000_7b763dcb.pdf'' \<noteq>
     ''uploads/documents/INV-7_20240309_120001_7b763dcb.pdf''"
proof -
  have r1: "in_range noon" and r2: "in_range one_second_later"
    by (simp_all add: in_range_def noon_def one_second_later_def)
  have h: "take 8 (md5_hexdigest bytes_25302) \<noteq> take 8 (md5_hexdigest bytes_3447)"
    by (simp add: md5_25302 md5_3447)
  have t: "\<not> same_second noon one_second_later"
    by (simp add: same_second_def noon_def one_second_later_def)
  from save_document_paths_distinct [OF save_25302 save_3447 r1 r1 disjI1 [OF h]]
    save_document_paths_distinct [OF save_25302 save_25302_later r1 r2 disjI2 [OF t]]
    r1 r2 h t
  show ?thesis by blast
qed

section \<open>Base64 round trip\<close>

lemma index_of_nth: "distinct xs \<Longrightarrow> n < length xs \<Longrightarrow> index_of (xs ! n) xs = Some n"
proof (induction xs arbitrary: n)
  case Nil
  then show ?case by simp
next
  case (Cons x xs)
  show ?case
  proof (cases n)
    case 0
    then show ?thesis by simp
  next
    case (Suc m)
    with Cons.prems have "xs ! m \<noteq> x" "m < length xs" "distinct xs"
      by auto
    with Cons.IH [of m] Suc show ?thesis by auto
  qed
qed

lemma distinct_b64_alphabet: "distinct b64_alphabet"
  by (simp add: b64_alphabet_def)

lemma length_b64_alphabet: "length b64_alphabet = 64"
  by (simp add: b64_alphabet_def)

lemma b64_index_char: "n < 64 \<Longrightarrow> b64_index (b64_char n) = Some n"
  by (simp add: b64_index_def b64_char_def index_of_nth distinct_b64_alphabet
      length_b64_alphabet)

lemma b64_char_not_pad: "b64_char n \<noteq> CHR ''=''"
proof -
  have "CHR ''='' \<notin> set b64_alphabet"
    by (simp add: b64_alphabet_def)
  moreover have "b64_char n \<in> set b64_alphabet"
    by (simp add: b64_char_def length_b64_alphabet)
  ultimately show ?thesis by metis
qed

lemma b64_first: "b < 256 \<Longrightarrow> (a div 4) * 4 + ((a mod 4) * 16 + b div 16) div 16 = (a::nat)"
  by simp

lemma b64_second:
  "b < 256 \<Longrightarrow> c < 256 \<Longrightarrow>
   (((a mod 4) * 16 + b div 16) mod 16) * 16 + ((b mod 16) * 4 + c div 64) div 4 = (b::nat)"
  by simp

lemma b64_third: "c < 256 \<Longrightarrow> (((b mod 16) * 4 + c div 64) mod 4) * 64 + c mod 64 = (c::nat)"
  by simp

lemma b64_sextets:
  "a < 256 \<Longrightarrow> a div 4 < (64::nat)"
  "b < 256 \<Longrightarrow> (a mod 4) * 16 + b div 16 < (64::nat)"
  "c < 256 \<Longrightarrow> (b mod 16) * 4 + c div 64 < (64::nat)"
  "c mod 64 < (64::nat)"
  by simp_all

lemma b64_roundtrip_nat:
  "\<forall>x \<in> set xs. x < 256 \<Longrightarrow> b64decode_nat (b64encode_nat xs) = Some xs"
proof (induction xs rule: b64encode_nat.induct)
  case 1
  then show ?case by simp
next
  case (2 a)
  then have a: "a < 256" by simp
  from b64_sextets(1) [OF a] b64_sextets(2) [of 0 a] b64_first [of 0 a]
  show ?case
    by (simp add: b64_index_char)
next
  case (3 a b)
  then have ab: "a < 256" "b < 256" by simp_all
  from b64_sextets(1) [OF ab(1)] b64_sextets(2) [OF ab(2), of a] b64_sextets(3) [of 0 b]
    b64_first [OF ab(2), of a] b64_second [OF ab(2), of 0 a]
  show ?case
    by (simp add: b64_index_char b64_char_not_pad)
next
  case (4 a b c rest)
  then have abc: "a < 256" "b < 256" "c < 256" by simp_all
  from 4 have rest: "b64decode_nat (b64encode_nat rest) = Some rest"
    by simp
  from b64_sextets(1) [OF abc(1)] b64_sextets(2) [OF abc(2), of a]
    b64_sextets(3) [OF abc(3), of b] b64_sextets(4) [of c]
    b64_first [OF abc(2), of a] b64_second [OF abc(2,3), of a] b64_third [OF abc(3), of b] rest
  show ?case
    by (simp add: b64_index_char b64_char_not_pad)
qed

lemma b64_roundtrip: "b64decode (b64encode bs) = Some bs"
proof -
  have "\<forall>x \<in> set (map unat bs). x < 256"
  proof
    fix x assume "x \<in> set (map unat bs)"
    then obtain w :: byte where "x = unat w" by auto
    moreover have "unat w < 2 ^ LENGTH(8)" by (rule unsigned_less)
    ultimately show "x < 256" by simp
  qed
  then have "b64decode_nat (b64encode_nat (map unat bs)) = Some (map unat bs)"
    by (rule b64_roundtrip_nat)
  then show ?thesis
    by (simp add: b64decode_def b64encode_def comp_def)
qed
section \<open>Properties of the asset embedder\<close>

lemma embed_asset_dangling: "dangling fs a \<Longrightarrow> embed_asset fs a processed = Inr processed"
  by (auto simp: dangling_def embed_asset_def path_exists_def Let_def split: entry.splits)

lemma is_logo_test:
  "(get_str (asset_type a) (PStr ''image'') = PStr ''logo'' \<or>
    truthy (get_bool (is_default a) PNone)) = is_logo a"
  by (cases "asset_type a"; cases "is_default a") (auto simp: is_logo_def)

lemma embed_asset_readable:
  assumes "readable fs a" "images_ok p"
  shows "embed_asset fs a p =
           Inr (if is_logo a then dict_set ''logo'' (logo_entry a (asset_url fs a)) p
                else dict_set ''images'' (PList (images_of p @ [image_entry a (asset_url fs a)])) p)"
proof -
  from assms(1) obtain path b where a: "file_path a = Val path" "path \<noteq> []" "fs path = Some (File b)"
    by (auto simp: readable_def split: entry.splits option.splits fs_node.splits)
  then have url: "asset_url fs a = data_url a b" and rd: "read_file fs path = Inr b"
    and ex: "path_exists fs path"
    by (simp_all add: asset_url_def read_file_def path_exists_def)
  show ?thesis
  proof (cases "is_logo a")
    case True
    with a url rd ex show ?thesis
      by (simp add: embed_asset_def Let_def is_logo_test)
  next
    case False
    with a url rd ex assms(2) show ?thesis
      by (auto simp: embed_asset_def Let_def is_logo_test images_of_def images_ok_def
          split: option.splits pyval.splits)
  qed
qed

lemma images_after_step:
  "images_ok p \<Longrightarrow>
   images_ok (dict_set ''logo'' v p) \<and> images_of (dict_set ''logo'' v p) = images_of p \<and>
   images_ok (dict_set ''images'' (PList xs) p) \<and> images_of (dict_set ''images'' (PList xs) p) = xs"
  by (simp add: images_ok_def images_of_def map_of_dict_set)

lemma slots_dangling:
  "dangling fs a \<Longrightarrow> logo_slot fs (a # assets) = logo_slot fs assets"
  "dangling fs a \<Longrightarrow> image_list fs (a # assets) = image_list fs assets"
  by (simp_all add: logo_slot_def image_list_def logos_def others_def)

lemma slots_logo:
  assumes "\<not> dangling fs a" "is_logo a"
  shows "logo_slot fs (a # assets) =
           (case logo_slot fs assets of
              None \<Rightarrow> Some (logo_entry a (asset_url fs a))
            | Some e \<Rightarrow> Some e)"
    and "image_list fs (a # assets) = image_list fs assets"
  using assms by (simp_all add: logo_slot_def image_list_def logos_def others_def last_option_def)

lemma slots_other:
  assumes "\<not> dangling fs a" "\<not> is_logo a"
  shows "logo_slot fs (a # assets) = logo_slot fs assets"
    and "image_list fs (a # assets) = image_entry a (asset_url fs a) # image_list fs assets"
  using assms by (simp_all add: logo_slot_def image_list_def logos_def others_def)

lemma process_assets_from_result:
  assumes "\<forall>a \<in> set assets. dangling fs a \<or> readable fs a" "images_ok p"
  shows "\<exists>r. process_assets_from fs assets p = Inr r \<and> images_ok r \<and>
           map_of r ''logo'' =
             (case logo_slot fs assets of None \<Rightarrow> map_of p ''logo'' | Some e \<Rightarrow> Some e) \<and>
           map_of r ''images'' =
             (if image_list fs assets = [] then map_of p ''images''
              else Some (PList (images_of p @ image_list fs assets)))"
  using assms
proof (induction assets arbitrary: p)
  case Nil
  then show ?case
    by (simp add: logo_slot_def image_list_def logos_def others_def last_option_def)
next
  case (Cons a assets)
  from Cons.prems have rest: "\<forall>a \<in> set assets. dangling fs a \<or> readable fs a"
    by simp
  show ?case
  proof (cases "dangling fs a")
    case True
    from Cons.IH [OF rest Cons.prems(2)] show ?thesis
      by (simp only: process_assets_from.simps embed_asset_dangling [OF True]
          slots_dangling [OF True] sum.case)
  next
    case False
    with Cons.prems have rd: "readable fs a" by simp
    show ?thesis
    proof (cases "is_logo a")
      case True
      let ?p = "dict_set ''logo'' (logo_entry a (asset_url fs a)) p"
      from images_after_step [OF Cons.prems(2)] have ok: "images_ok ?p" "images_of ?p = images_of p"
        by simp_all
      have step: "embed_asset fs a p = Inr ?p"
        using embed_asset_readable [OF rd Cons.prems(2)] True by simp
      from Cons.IH [OF rest ok(1)] obtain r where
        r: "process_assets_from fs assets ?p = Inr r" "images_ok r"
        "map_of r ''logo'' =
           (case logo_slot fs assets of None \<Rightarrow> map_of ?p ''logo'' | Some e \<Rightarrow> Some e)"
        "map_of r ''images'' =
           (if image_list fs assets = [] then map_of ?p ''images''
            else Some (PList (images_of ?p @ image_list fs assets)))"
        by blast
      have "map_of r ''logo'' =
              (case logo_slot fs (a # assets) of None \<Rightarrow> map_of p ''logo'' | Some e \<Rightarrow> Some e)"
        using r(3) by (simp add: slots_logo [OF False True] map_of_dict_set split: option.splits)
      moreover have "map_of r ''images'' =
           (if image_list fs (a # assets) = [] then map_of p ''images''
            else Some (PList (images_of p @ image_list fs (a # assets))))"
        using r(4) by (simp add: slots_logo [OF False True] map_of_dict_set ok(2))
      ultimately show ?thesis
        using r(1,2) step by simp
    next
      case notlogo: False
      let ?p = "dict_set ''images'' (PList (images_of p @ [image_entry a (asset_url fs a)])) p"
      from images_after_step [OF Cons.prems(2)] have ok: "images_ok ?p"
        "images_of ?p = images_of p @ [image_entry a (asset_url fs a)]"
        by simp_all
      have step: "embed_asset fs a p = Inr ?p"
        using embed_asset_readable [OF rd Cons.prems(2)] notlogo by simp
      from Cons.IH [OF rest ok(1)] obtain r where
        r: "process_assets_from fs assets ?p = Inr r" "images_ok r"
        "map_of r ''logo'' =
           (case logo_slot fs assets of None \<Rightarrow> map_of ?p ''logo'' | Some e \<Rightarrow> Some e)"
        "map_of r ''images'' =
           (if image_list fs assets = [] then map_of ?p ''images''
            else Some (PList (images_of ?p @ image_list fs assets)))"
        by blast
      have "map_of r ''logo'' =
              (case logo_slot fs (a # assets) of None \<Rightarrow> map_of p ''logo'' | Some e \<Rightarrow> Some e)"
        using r(3) by (simp add: slots_other [OF False notlogo] map_of_dict_set
            split: option.splits)
      moreover have "map_of r ''images'' =
           (if image_list fs (a # assets) = [] then map_of p ''images''
            else Some (PList (images_of p @ image_list fs (a # assets))))"
        using r(4) by (simp add: slots_other [OF False notlogo] map_of_dict_set ok(2))
      ultimately show ?thesis
        using r(1,2) step by simp
    qed
  qed
qed

text \<open>
  C7. When every asset that is not dangling names a regular file, \<open>_process_assets\<close>
  returns a dictionary whose \<open>logo\<close> slot holds the entry of the last embedded asset with
  role \<open>logo\<close> or with the default flag set (no slot when there is none), and whose
  \<open>images\<close> list holds the entries of all other embedded assets in input order (no list
  when there is none).
\<close>

theorem process_assets_classification:
  assumes "\<forall>a \<in> set assets. dangling fs a \<or> readable fs a"
  shows "\<exists>processed. process_assets fs assets = Inr processed \<and>
           map_of processed ''logo'' = logo_slot fs assets \<and>
           map_of processed ''images'' =
             (if image_list fs assets = [] then None else Some (PList (image_list fs assets)))"
proof -
  have "images_ok []"
    by (simp add: images_ok_def)
  from process_assets_from_result [OF assms this] show ?thesis
    by (auto simp: process_assets_def images_of_def split: option.splits)
qed

lemma process_assets_from_append:
  "process_assets_from fs (xs @ ys) p =
     (case process_assets_from fs xs p of Inl e \<Rightarrow> Inl e | Inr p' \<Rightarrow> process_assets_from fs ys p')"
  by (induction xs arbitrary: p) (auto split: sum.splits)

lemma nonempty_Some: "nonempty (Some xs) = (xs \<noteq> [])"
  by (cases xs) (simp_all add: nonempty_def)

text \<open>
  C8. An asset whose descriptor has no file path, or whose path is not on disk, is passed
  over without an exception: its iteration leaves the dictionary as it was, the result for
  the whole list is the result for the list without that asset, and so is the result of
  \<open>generate_pdf\<close> when other assets remain.
\<close>

theorem dangling_asset_skipped:
  assumes "file_path a = Absent \<or> file_path a = Null \<or>
           (\<exists>p. file_path a = Val p \<and> \<not> path_exists fs p)"
  shows "embed_asset fs a processed = Inr processed \<and>
         process_assets fs (before @ a # after) = process_assets fs (before @ after) \<and>
         (before @ after \<noteq> [] \<longrightarrow>
            generate_pdf ext settings tdir fs tname source vars css
              (Some (before @ a # after)) branding include_qr qr_data watermark =
            generate_pdf ext settings tdir fs tname source vars css
              (Some (before @ after)) branding include_qr qr_data watermark)"
proof -
  from assms have d: "dangling fs a"
    by (auto simp: dangling_def path_exists_def)
  then have skip: "embed_asset fs a p = Inr p" for p
    by (rule embed_asset_dangling)
  then have same: "process_assets fs (before @ a # after) = process_assets fs (before @ after)"
    by (simp add: process_assets_def process_assets_from_append split: sum.splits)
  have "build_context ext settings fs vars (Some (before @ a # after)) branding include_qr
          qr_data watermark =
        build_context ext settings fs vars (Some (before @ after)) branding include_qr
          qr_data watermark"
    if "before @ after \<noteq> []"
    using that by (simp add: build_context_def nonempty_Some same)
  with skip same show ?thesis
    by (simp add: generate_pdf_def)
qed

theorem dangling_asset_skipped_witness:
  "(\<exists>p. file_path missing_asset = Val p \<and> \<not> path_exists assets_fs p) \<and>
   embed_asset assets_fs missing_asset [] = Inr [] \<and>
   process_assets assets_fs [logo_asset, missing_asset, image_asset] =
     process_assets assets_fs [logo_asset, image_asset] \<and>
   generate_pdf fragment_externals default_settings ''app/templates'' assets_fs None
     (Some ''<p>Invoice</p>'') None None (Some [logo_asset, missing_asset, image_asset])
     None False None None =
   generate_pdf fragment_externals default_settings ''app/templates'' assets_fs None
     (Some ''<p>Invoice</p>'') None None (Some [logo_asset, image_asset])
     None False None None"
proof -
  have h: "\<exists>p. file_path missing_asset = Val p \<and> \<not> path_exists assets_fs p"
    by (simp add: missing_asset_def assets_fs_def path_exists_def)
  then have "file_path missing_asset = Absent \<or> file_path missing_asset = Null \<or>
      (\<exists>p. file_path missing_asset = Val p \<and> \<not> path_exists assets_fs p)"
    by blast
  from dangling_asset_skipped [OF this, where processed = "[]" and before = "[logo_asset]"
      and after = "[image_asset]" and ext = fragment_externals and settings = default_settings
      and tdir = "''app/templates''" and tname = None and source = "Some ''<p>Invoice</p>''"
      and vars = None and css = None and branding = None and include_qr = False
      and qr_data = None and watermark = None] h
  show ?thesis by simp
qed

lemma b64_png: "b64encode [0x89, 0x50, 0x4E, 0x47] = ''iVBORw==''"
  by (simp add: b64encode_def b64_char_def b64_alphabet_def)

lemma b64_gif: "b64encode [0x47, 0x49, 0x46] = ''R0lG''"
  by (simp add: b64encode_def b64_char_def b64_alphabet_def)

lemma example_urls:
  "asset_url assets_fs logo_asset = ''data:image/png;base64,iVBORw==''"
  "asset_url assets_fs image_asset = ''data:image/gif;base64,R0lG''"
  by (simp_all add: asset_url_def assets_fs_def logo_asset_def image_asset_def data_url_def
      b64_png b64_gif)

lemma example_kinds:
  "\<not> dangling assets_fs logo_asset" "\<not> dangling assets_fs image_asset"
  "readable assets_fs logo_asset" "readable assets_fs image_asset"
  "is_logo logo_asset" "\<not> is_logo image_asset"
  by (simp_all add: dangling_def readable_def is_logo_def assets_fs_def logo_asset_def
      image_asset_def)

theorem process_assets_classification_witness:
  "readable assets_fs logo_asset \<and> readable assets_fs image_asset \<and>
   (\<exists>processed. process_assets assets_fs [logo_asset, image_asset] = Inr processed \<and>
      map_of processed ''logo'' =
        Some (logo_entry logo_asset ''data:image/png;base64,iVBORw=='') \<and>
      map_of processed ''images'' =
        Some (PList [image_entry image_asset ''data:image/gif;base64,R0lG'']))"
proof -
  have h: "\<forall>a \<in> set [logo_asset, image_asset]. dangling assets_fs a \<or> readable assets_fs a"
    by (simp add: example_kinds)
  have "logo_slot assets_fs [logo_asset, image_asset] =
          Some (logo_entry logo_asset ''data:image/png;base64,iVBORw=='')"
    by (simp add: logo_slot_def logos_def last_option_def example_kinds example_urls)
  moreover have "image_list assets_fs [logo_asset, image_asset] =
          [image_entry image_asset ''data:image/gif;base64,R0lG'']"
    by (simp add: image_list_def others_def example_kinds example_urls)
  ultimately show ?thesis
    using process_assets_classification [OF h] by (simp add: example_kinds)
qed

text \<open>
  C5. The data URL built from a file's bytes is \<open>data:\<close>, the MIME type, \<open>;base64,\<close> and a
  payload, and decoding the payload gives the bytes back.
\<close>

theorem data_url_roundtrip:
  "\<exists>payload. data_url a b =
       ''data:'' @ py_str (get_str (mime_type a) (PStr ''image/png'')) @ '';base64,'' @ payload \<and>
     b64decode payload = Some b"
  by (simp add: data_url_def Let_def b64_roundtrip)

section \<open>Properties of the stylesheet\<close>

lemma sublist_concat: "line \<in> set ls \<Longrightarrow> sublist x line \<Longrightarrow> sublist x (concat ls)"
proof -
  assume "line \<in> set ls" and x: "sublist x line"
  then obtain ys zs where "ls = ys @ line # zs"
    by (auto simp: in_set_conv_decomp)
  then have "concat ls = concat ys @ line @ concat zs"
    by simp
  then have "sublist line (concat ls)"
    by simp
  with x show ?thesis
    by (rule sublist_order.order.trans)
qed

lemma sublist_generate_css:
  "sublist x (concat (base_css_lines settings (get_branding_config settings config))) \<Longrightarrow>
   sublist x (generate_css settings config custom)"
proof -
  assume x: "sublist x (concat (base_css_lines settings (get_branding_config settings config)))"
  have "sublist (concat (base_css_lines settings (get_branding_config settings config)))
          (generate_css settings config custom)"
    by (simp add: generate_css_def Let_def split: option.splits)
  with x show ?thesis
    by (rule sublist_order.order.trans)
qed

lemma branding_items:
  "dict_item (get_branding_config settings config) ''primary_color'' =
     dict_get config ''primary_color'' (PStr ''#1E40AF'')"
  "dict_item (get_branding_config settings config) ''accent_color'' =
     dict_get config ''accent_color'' (PStr ''#F59E0B'')"
  "dict_item (get_branding_config settings config) ''font_family'' =
     dict_get config ''font_family'' (PStr (DEFAULT_FONT_FAMILY settings))"
  "dict_item (get_branding_config settings config) ''logo_width'' =
     dict_get config ''logo_width'' (PInt 150)"
  by (simp_all add: dict_item_def get_branding_config_def)

lemma css_has_font_family:
  "sublist (py_str (dict_item b ''font_family'')) (concat (base_css_lines s b))"
  by (rule sublist_concat [where line =
        "''            font-family: '' @ py_str (dict_item b ''font_family'') @ '';'' @ nl"])
     (simp add: base_css_lines_def, rule sublist_appendI)

lemma css_has_primary_color:
  "sublist (py_str (dict_item b ''primary_color'')) (concat (base_css_lines s b))"
  by (rule sublist_concat [where line =
        "''            border-bottom: 2px solid '' @ py_str (dict_item b ''primary_color'') @ '';'' @ nl"])
     (simp add: base_css_lines_def, rule sublist_appendI)

lemma css_has_logo_width:
  "sublist (py_str (dict_item b ''logo_width'')) (concat (base_css_lines s b))"
  by (rule sublist_concat [where line =
        "''            max-width: '' @ py_str (dict_item b ''logo_width'') @ ''px;'' @ nl"])
     (simp add: base_css_lines_def, rule sublist_appendI)

lemma css_has_accent_color:
  "sublist (py_str (dict_item b ''accent_color'')) (concat (base_css_lines s b))"
  by (rule sublist_concat [where line =
        "''            border-left: 4px solid '' @ py_str (dict_item b ''accent_color'') @ '';'' @ nl"])
     (simp add: base_css_lines_def, rule sublist_appendI)

text \<open>
  C1, as amended. For each of the four fields that the stylesheet interpolates
  (\<open>primary_color\<close>, \<open>accent_color\<close>, \<open>font_family\<close>, \<open>logo_width\<close>) the stylesheet
  contains the documented default when the configuration has no such key, and the text of
  the configured value when it has. \<open>secondary_color\<close> and \<open>logo_position\<close> are not
  interpolated.
\<close>

theorem generate_css_branding:
  "let css = generate_css settings config custom in
     (case map_of config ''primary_color'' of
        None \<Rightarrow> sublist ''#1E40AF'' css | Some v \<Rightarrow> sublist (py_str v) css) \<and>
     (case map_of config ''accent_color'' of
        None \<Rightarrow> sublist ''#F59E0B'' css | Some v \<Rightarrow> sublist (py_str v) css) \<and>
     (case map_of config ''font_family'' of
        None \<Rightarrow> sublist (DEFAULT_FONT_FAMILY settings) css | Some v \<Rightarrow> sublist (py_str v) css) \<and>
     (case map_of config ''logo_width'' of
        None \<Rightarrow> sublist ''150'' css | Some v \<Rightarrow> sublist (py_str v) css)"
proof -
  let ?b = "get_branding_config settings config"
  have w: "int_str 150 = ''150''"
    by (simp add: int_str_def nat_digits.simps digit_char_def)
  from sublist_generate_css [OF css_has_primary_color [of ?b settings], of custom]
    sublist_generate_css [OF css_has_accent_color [of ?b settings], of custom]
    sublist_generate_css [OF css_has_font_family [of ?b settings], of custom]
    sublist_generate_css [OF css_has_logo_width [of ?b settings], of custom]
  show ?thesis
    by (simp add: Let_def branding_items dict_get_def w split: option.splits)
qed

theorem generate_css_branding_witness:
  "map_of green_primary ''primary_color'' = Some (PStr ''#166534'') \<and>
   map_of green_primary ''logo_width'' = Some (PInt 200) \<and>
   map_of green_primary ''accent_color'' = None \<and>
   map_of green_primary ''font_family'' = None \<and>
   sublist ''#166534'' (generate_css default_settings green_primary None) \<and>
   sublist ''200'' (generate_css default_settings green_primary None) \<and>
   sublist ''#F59E0B'' (generate_css default_settings green_primary None) \<and>
   sublist ''Inter, -apple-system, BlinkMacSystemFont, sans-serif''
     (generate_css default_settings green_primary None)"
proof -
  have w: "int_str 200 = ''200''"
    by (simp add: int_str_def nat_digits.simps digit_char_def)
  from generate_css_branding [of default_settings green_primary None] show ?thesis
    by (simp add: Let_def green_primary_def w default_settings_def)
qed

lemmas css_eval = generate_css_def base_css_lines_def get_branding_config_def default_settings_def
  dict_get_def dict_item_def nl_def sq_def dq_def int_str_def nat_digits.simps digit_char_def
  red_secondary_def

lemma css_no_D: "CHR ''D'' \<notin> set (generate_css default_settings red_secondary None)"
  by (simp add: css_eval)

lemma css_no_header_left:
  "\<not> sublist ''header-left'' (generate_css default_settings red_secondary None)"
  by (simp add: css_eval sublist_code)

text \<open>
  C1 as stated fails: with \<open>secondary_color\<close> set to \<open>#DC2626\<close> and no \<open>logo_position\<close>, the
  stylesheet contains neither the configured colour nor the default \<open>header-left\<close>.
\<close>

theorem generate_css_omits_fields:
  "map_of red_secondary ''secondary_color'' = Some (PStr ''#DC2626'') \<and>
   \<not> sublist ''#DC2626'' (generate_css default_settings red_secondary None) \<and>
   map_of red_secondary ''logo_position'' = None \<and>
   \<not> sublist ''header-left'' (generate_css default_settings red_secondary None)"
proof -
  have "\<not> sublist ''#DC2626'' (generate_css default_settings red_secondary None)"
  proof
    assume "sublist ''#DC2626'' (generate_css default_settings red_secondary None)"
    then have "set ''#DC2626'' \<subseteq> set (generate_css default_settings red_secondary None)"
      by (rule set_mono_sublist)
    with css_no_D show False
      by simp
  qed
  with css_no_header_left show ?thesis
    by (simp add: red_secondary_def)
qed

section \<open>Properties of \<open>generate_pdf\<close> and of the endpoints\<close>

text \<open>
  C10, as amended. When neither a template name nor a markup is given (\<open>None\<close> or empty),
  \<open>generate_pdf\<close> raises an exception and produces no PDF, whatever the libraries do; and
  when the context has been built without an exception, the exception is the \<open>ValueError\<close>
  ``Either template_name or html_content must be provided''.
\<close>

theorem generate_pdf_needs_template:
  assumes "\<not> nonempty tname" "\<not> nonempty source"
  shows "(\<exists>e. generate_pdf ext settings tdir fs tname source context css
                assets branding include_qr qr_data watermark = Inl e) \<and>
         (\<forall>ctx. build_context ext settings fs context assets branding include_qr qr_data watermark
                  = Inr ctx \<longrightarrow>
            generate_pdf ext settings tdir fs tname source context css
                assets branding include_qr qr_data watermark =
              Inl (ValueError ''Either template_name or html_content must be provided''))"
  using assms by (auto simp: generate_pdf_def render_html_def split: sum.splits)

lemma build_context_plain:
  "build_context ext settings fs None None None False None None =
     Inr [(''branding'', PDict (map (\<lambda>(k, v). (k, Scalar v)) (get_branding_config settings [])))]"
  by (simp add: build_context_def nonempty_def dict_get_def)

theorem generate_pdf_needs_template_witness:
  "\<not> nonempty (None :: string option) \<and>
   generate_pdf fragment_externals default_settings ''app/templates'' uploads_fs None None None None
     None None False None None =
     Inl (ValueError ''Either template_name or html_content must be provided'')"
proof -
  have n: "\<not> nonempty (None :: string option)"
    by (simp add: nonempty_def)
  from generate_pdf_needs_template [OF n n, of fragment_externals default_settings
      "''app/templates''" uploads_fs None None None None False None None]
    build_context_plain [of fragment_externals default_settings uploads_fs] n
  show ?thesis by simp
qed

text \<open>
  C10 as stated fails: the assets are embedded before the arguments are checked, so an
  asset whose path is a directory makes the call end in \<open>IsADirectoryError\<close> instead.
\<close>

theorem generate_pdf_other_exception:
  "generate_pdf fragment_externals default_settings ''app/templates'' uploads_fs None None None None
     (Some [folder_asset]) None False None None = Inl (IsADirectoryError ''uploads/assets'')"
  by (simp add: generate_pdf_def build_context_def nonempty_def process_assets_def
      embed_asset_def folder_asset_def uploads_fs_def path_exists_def read_file_def)

lemma write_file_cases:
  "write_file disk fs parent p b = (r, fs') \<Longrightarrow>
   (\<forall>q. q \<noteq> p \<longrightarrow> fs' q = fs q) \<and>
   (case r of
      Inr _ \<Rightarrow> fs' p = Some (File b)
    | Inl e \<Rightarrow> fs' p = fs p \<or> (\<exists>n. fs' p = Some (File (take n b))))"
  by (auto simp: write_file_def split: option.splits fs_node.splits io_fault.splits)

lemma save_document_stored:
  "save_document disk st t fs b f = (Inr p, fs') \<Longrightarrow>
   p = document_path st t b f \<and> fs' p = Some (File b)"
  using write_file_cases [of disk fs "documents_path st" "document_path st t b f" b]
  by (auto simp: save_document_def Let_def split: sum.splits prod.splits)

lemma save_document_failed:
  assumes "save_document disk st t fs b f = (Inl e, fs')"
  shows "(\<forall>q. q \<noteq> document_path st t b f \<longrightarrow> fs' q = fs q) \<and>
         (fs' (document_path st t b f) = fs (document_path st t b f) \<or>
          (\<exists>n. fs' (document_path st t b f) = Some (File (take n b))))"
proof -
  from assms have "write_file disk fs (documents_path st) (document_path st t b f) b = (Inl e, fs')"
    by (auto simp: save_document_def Let_def split: sum.splits prod.splits)
  from write_file_cases [OF this] show ?thesis by simp
qed

text \<open>
  C4, as amended. Once its template is found, \<open>generate_document\<close> always returns a
  generation result, and the result is decided by the first step that raises.
  When \<open>generate_pdf\<close> raises, the result has \<open>success=False\<close>, no path, no size and the
  message ``Document generation failed:'' followed by the text of that exception, and the
  file system is as it was. When \<open>save_document\<close> raises, the result is of the same form,
  with the text of that exception; the file system is as it was except at the path the
  document was to get, which either is as it was or holds a leading part of the PDF.
  When neither raises, the result has \<open>success=True\<close>, the path and the length of the
  PDF, and the file under that path holds exactly the PDF. So a result with \<open>success=True\<close>
  is returned only then.
\<close>

theorem generate_document_contract:
  assumes "templates db (template_id request) = Some template"
  shows "\<exists>resp fs'.
           generate_document app db fs request = (Inr resp, fs') \<and>
           (\<forall>e. template_pdf app db fs request template = Inl e \<longrightarrow>
              \<not> success resp \<and> pdf_url resp = None \<and> pdf_size resp = None \<and>
              message resp = Some (''Document generation failed: '' @ exc_str e) \<and>
              fs' = fs) \<and>
           (\<forall>pdf e.
              template_pdf app db fs request template = Inr pdf \<and>
              fst (save_document (app_disk app) (storage app) (clock app) fs pdf
                     (document_filename request template)) = Inl e \<longrightarrow>
              \<not> success resp \<and> pdf_url resp = None \<and> pdf_size resp = None \<and>
              message resp = Some (''Document generation failed: '' @ exc_str e) \<and>
              (let path = document_path (storage app) (clock app) pdf
                            (document_filename request template)
               in (\<forall>q. q \<noteq> path \<longrightarrow> fs' q = fs q) \<and>
                  (fs' path = fs path \<or> (\<exists>n. fs' path = Some (File (take n pdf)))))) \<and>
           (\<forall>pdf path.
              template_pdf app db fs request template = Inr pdf \<and>
              fst (save_document (app_disk app) (storage app) (clock app) fs pdf
                     (document_filename request template)) = Inr path \<longrightarrow>
              success resp \<and> pdf_url resp = Some path \<and> pdf_size resp = Some (length pdf) \<and>
              message resp = Some ''Document generated successfully'' \<and>
              fs' path = Some (File pdf)) \<and>
           (success resp \<longrightarrow>
              (\<exists>pdf path.
                 template_pdf app db fs request template = Inr pdf \<and>
                 fst (save_document (app_disk app) (storage app) (clock app) fs pdf
                        (document_filename request template)) = Inr path \<and>
                 pdf_url resp = Some path \<and> pdf_size resp = Some (length pdf) \<and>
                 fs' path = Some (File pdf)))"
proof (cases "template_pdf app db fs request template")
  case (Inl e)
  with assms show ?thesis
    by (simp add: generate_document_def generation_failed_def)
next
  case (Inr pdf)
  let ?name = "document_filename request template"
  obtain r fs' where s: "save_document (app_disk app) (storage app) (clock app) fs pdf ?name = (r, fs')"
    by (cases "save_document (app_disk app) (storage app) (clock app) fs pdf ?name") auto
  show ?thesis
  proof (cases r)
    case (Inl e)
    with s have "save_document (app_disk app) (storage app) (clock app) fs pdf ?name = (Inl e, fs')"
      by simp
    from save_document_failed [OF this] assms Inr s Inl show ?thesis
      by (simp add: generate_document_def generation_failed_def Let_def)
  next
    case path: (Inr path)
    with s have "save_document (app_disk app) (storage app) (clock app) fs pdf ?name = (Inr path, fs')"
      by simp
    from save_document_stored [OF this] assms Inr s path show ?thesis
      by (auto simp: generate_document_def Let_def)
  qed
qed

lemmas parse_eval = parse_template_def parse_expr_def strip_def printable_def is_identifier_def
  ident_start_def ident_char_def reserved_names_def

lemmas render_eval = render_source_def render_node_def resolve_def emit_def known_filter_def
  apply_filter_def dict_methods_def

lemma render_plain: "render_source env ''<p>Invoice</p>'' ctx = Some (Inr ''<p>Invoice</p>'')"
  by (simp add: parse_eval render_eval)

lemma jinja_plain:
  "jinja_render fragment_externals env ''<p>Invoice</p>'' ctx = Inr ''<p>Invoice</p>''"
  by (simp add: fragment_externals_def render_plain)

lemma html_plain:
  "render_html fragment_externals tdir fs None (Some ''<p>Invoice</p>'') ctx =
     Inr ''<p>Invoice</p>''"
  "render_html failing_externals tdir fs None (Some ''<p>Invoice</p>'') ctx =
     Inr ''<p>Invoice</p>''"
  using jinja_plain by (simp_all add: render_html_def nonempty_def failing_externals_def)

lemma context_plain:
  "\<exists>ctx. build_context ext settings fs (Some c) (Some []) (Some []) False None None = Inr ctx"
  by (simp add: build_context_def nonempty_def dict_get_def)

lemma plain_pdf:
  "template_pdf example_app example_db fs plain_request plain_template =
     Inr (encode ''<p>Invoice</p>'')"
  "template_pdf full_disk_app example_db fs plain_request plain_template =
     Inr (encode ''<p>Invoice</p>'')"
proof -
  obtain ctx where "build_context fragment_externals default_settings fs (Some []) (Some [])
      (Some []) False None None = Inr ctx"
    using context_plain by blast
  then have "generate_pdf fragment_externals default_settings ''app/templates'' fs None
     (Some ''<p>Invoice</p>'') (Some []) None (Some []) (Some []) False None None =
     Inr (encode ''<p>Invoice</p>'')"
    by (simp add: generate_pdf_def html_plain) (simp add: fragment_externals_def)
  then show "template_pdf example_app example_db fs plain_request plain_template =
     Inr (encode ''<p>Invoice</p>'')"
    and "template_pdf full_disk_app example_db fs plain_request plain_template =
     Inr (encode ''<p>Invoice</p>'')"
    by (simp_all add: template_pdf_def example_app_def full_disk_app_def example_db_def
        plain_request_def plain_template_def)
qed

lemma plain_pdf_fails:
  "generate_pdf failing_externals default_settings ''app/templates'' fs None
     (Some ''<p>Invoice</p>'') (Some c) None (Some []) (Some []) False None None =
   Inl (WeasyPrintError ''layout failed'')"
proof -
  obtain ctx where "build_context failing_externals default_settings fs (Some c) (Some [])
      (Some []) False None None = Inr ctx"
    using context_plain by blast
  then show ?thesis
    by (simp add: generate_pdf_def html_plain) (simp add: failing_externals_def)
qed

lemma plain_template_fails:
  "template_pdf failing_app example_db fs plain_request plain_template =
     Inl (WeasyPrintError ''layout failed'')"
  using plain_pdf_fails [of fs "[]"]
  by (simp add: template_pdf_def example_app_def failing_app_def example_db_def
      plain_request_def plain_template_def)

lemma bytes_invoice:
  "encode ''<p>Invoice</p>'' =
     [0x3C, 0x70, 0x3E, 0x49, 0x6E, 0x76, 0x6F, 0x69, 0x63, 0x65, 0x3C, 0x2F, 0x70, 0x3E]"
  by (simp add: encode_def)

lemma words_invoice:
  "map (\<lambda>j. le32 (take 4 (drop (4 * j) (md5_pad (encode ''<p>Invoice</p>''))))) [0..<16] =
     [1228828732, 1768912494, 792487267, 8404592] @ replicate 10 0 @ [112, 0]"
  unfolding bytes_invoice
  by (simp add: md5_pad_def le_bytes_def upt_from_0 upt_from_1 replicate_numeral)

lemma block_invoice:
  "md5_block (0x67452301, 0xefcdab89, 0x98badcfe, 0x10325476)
     (md5_pad (encode ''<p>Invoice</p>'')) =
     (0x61655636, 0xab714409, 0xfc9e427b, 0xeda47ee9)"
  unfolding md5_block_def words_invoice
  by (simp add: upt_from_0 upt_from_1 replicate_numeral md5_step_def md5_K_def md5_s_def
      rotl32_def)

lemma length_pad_invoice: "length (md5_pad (encode ''<p>Invoice</p>'')) = 64"
  unfolding bytes_invoice by (simp add: md5_pad_def le_bytes_def)

lemma md5_invoice:
  "md5_hexdigest (encode ''<p>Invoice</p>'') = ''36566561094471ab7b429efce97ea4ed''"
  by (simp add: md5_hexdigest_def md5_digest_def length_pad_invoice block_invoice le_bytes_def
      upt_from_0 upt_from_1 hex_byte_def hex_digit_def)

lemma plain_path:
  "document_path storage_service_default noon (encode ''<p>Invoice</p>'')
     (document_filename plain_request plain_template) =
     ''uploads/documents/plain_invoice_20240309_120000_36566561.pdf''"
  by (simp add: document_path_def Let_def stamp_noon md5_invoice document_filename_def
      plain_request_def plain_template_def nonempty_def path_stem_def path_name_def
      storage_service_default_def path_join_def)

lemma plain_saved:
  "fst (save_document sound_disk storage_service_default noon uploads_fs
          (encode ''<p>Invoice</p>'') (document_filename plain_request plain_template)) =
     Inr ''uploads/documents/plain_invoice_20240309_120000_36566561.pdf''"
  unfolding save_document_def Let_def plain_path
  by (simp add: write_file_def sound_disk_def storage_service_default_def path_join_def
      uploads_fs_def)

lemma plain_not_saved:
  "fst (save_document full_disk storage_service_default noon uploads_fs
          (encode ''<p>Invoice</p>'') (document_filename plain_request plain_template)) =
     Inl (OSError ''[Errno 28] No space left on device'')"
  unfolding save_document_def Let_def plain_path
  by (simp add: write_file_def full_disk_def storage_service_default_def path_join_def
      uploads_fs_def)

lemma plain_left_behind:
  "snd (generate_document full_disk_app example_db uploads_fs plain_request)
     ''uploads/documents/plain_invoice_20240309_120000_36566561.pdf'' = Some (File [])"
proof -
  have "save_document full_disk storage_service_default noon uploads_fs
          (encode ''<p>Invoice</p>'') (document_filename plain_request plain_template) =
        (Inl (OSError ''[Errno 28] No space left on device''),
         uploads_fs(''uploads/documents/plain_invoice_20240309_120000_36566561.pdf'' \<mapsto> File []))"
    unfolding save_document_def Let_def plain_path
    by (simp add: write_file_def full_disk_def storage_service_default_def path_join_def
        uploads_fs_def)
  then show ?thesis
    using plain_pdf(2) [of uploads_fs]
    by (simp add: generate_document_def example_db_def plain_request_def full_disk_app_def
        example_app_def)
qed

theorem generate_document_contract_witness:
  "templates example_db (template_id plain_request) = Some plain_template \<and>
   (\<exists>resp fs'. generate_document example_app example_db uploads_fs plain_request = (Inr resp, fs')
      \<and> success resp \<and> pdf_size resp = Some 14 \<and>
      pdf_url resp = Some ''uploads/documents/plain_invoice_20240309_120000_36566561.pdf'' \<and>
      fs' ''uploads/documents/plain_invoice_20240309_120000_36566561.pdf'' =
        Some (File (encode ''<p>Invoice</p>''))) \<and>
   (\<exists>resp. generate_document failing_app example_db uploads_fs plain_request = (Inr resp, uploads_fs)
      \<and> \<not> success resp \<and> pdf_url resp = None \<and> pdf_size resp = None \<and>
      message resp = Some ''Document generation failed: layout failed'') \<and>
   (\<exists>resp fs'. generate_document full_disk_app example_db uploads_fs plain_request = (Inr resp, fs')
      \<and> \<not> success resp \<and> pdf_url resp = None \<and> pdf_size resp = None \<and>
      message resp = Some ''Document generation failed: [Errno 28] No space left on device'' \<and>
      fs' ''uploads/documents'' = Some Directory \<and>
      fs' ''uploads/documents/plain_invoice_20240309_120000_36566561.pdf'' = Some (File []))"
proof -
  have t: "templates example_db (template_id plain_request) = Some plain_template"
    by (simp add: example_db_def plain_request_def)
  have ok: "fst (save_document (app_disk example_app) (storage example_app) (clock example_app)
      uploads_fs (encode ''<p>Invoice</p>'') (document_filename plain_request plain_template)) =
      Inr ''uploads/documents/plain_invoice_20240309_120000_36566561.pdf''"
    using plain_saved by (simp add: example_app_def)
  have full: "fst (save_document (app_disk full_disk_app) (storage full_disk_app)
      (clock full_disk_app) uploads_fs (encode ''<p>Invoice</p>'')
      (document_filename plain_request plain_template)) =
      Inl (OSError ''[Errno 28] No space left on device'')"
    using plain_not_saved by (simp add: example_app_def full_disk_app_def)
  have docs: "''uploads/documents'' \<noteq> document_path (storage full_disk_app) (clock full_disk_app)
      (encode ''<p>Invoice</p>'') (document_filename plain_request plain_template)"
    using plain_path by (simp add: example_app_def full_disk_app_def)
  have len: "length (encode ''<p>Invoice</p>'') = 14"
    by (simp add: encode_def)
  from generate_document_contract [OF t, of example_app uploads_fs]
    plain_pdf(1) [of uploads_fs] ok len
  have c1: "\<exists>resp fs'. generate_document example_app example_db uploads_fs plain_request = (Inr resp, fs')
      \<and> success resp \<and> pdf_size resp = Some 14 \<and>
      pdf_url resp = Some ''uploads/documents/plain_invoice_20240309_120000_36566561.pdf'' \<and>
      fs' ''uploads/documents/plain_invoice_20240309_120000_36566561.pdf'' =
        Some (File (encode ''<p>Invoice</p>''))"
    by auto
  from generate_document_contract [OF t, of failing_app uploads_fs]
    plain_template_fails [of uploads_fs]
  have c2: "\<exists>resp. generate_document failing_app example_db uploads_fs plain_request = (Inr resp, uploads_fs)
      \<and> \<not> success resp \<and> pdf_url resp = None \<and> pdf_size resp = None \<and>
      message resp = Some ''Document generation failed: layout failed''"
    by auto
  from generate_document_contract [OF t, of full_disk_app uploads_fs]
    plain_pdf(2) [of uploads_fs] full docs
  have c3: "\<exists>resp fs'. generate_document full_disk_app example_db uploads_fs plain_request = (Inr resp, fs')
      \<and> \<not> success resp \<and> pdf_url resp = None \<and> pdf_size resp = None \<and>
      message resp = Some ''Document generation failed: [Errno 28] No space left on device'' \<and>
      fs' ''uploads/documents'' = Some Directory"
    by (auto simp: Let_def uploads_fs_def)
  with plain_left_behind
  have c4: "\<exists>resp fs'. generate_document full_disk_app example_db uploads_fs plain_request = (Inr resp, fs')
      \<and> \<not> success resp \<and> pdf_url resp = None \<and> pdf_size resp = None \<and>
      message resp = Some ''Document generation failed: [Errno 28] No space left on device'' \<and>
      fs' ''uploads/documents'' = Some Directory \<and>
      fs' ''uploads/documents/plain_invoice_20240309_120000_36566561.pdf'' = Some (File [])"
    by auto
  from t c1 c2 c4 show ?thesis by blast
qed

text \<open>
  C4 as stated fails: a request for a template that does not exist ends in an HTTP 404
  error, and \<open>generate_invoice\<close> turns a failure of the pipeline into an HTTP 500 error;
  neither caller receives a generation result.
\<close>

theorem endpoints_raise_http_errors:
  "fst (generate_document example_app example_db uploads_fs unknown_request) =
     Inl (HTTPException 404 ''Template not found'') \<and>
   fst (generate_invoice failing_app example_db uploads_fs 7 (Some 1)) =
     Inl (HTTPException 500 ''PDF generation failed: layout failed'')"
proof -
  have "invoice_bytes failing_app example_db uploads_fs guest_order (Some 1) = Inl ''layout failed''"
    using plain_pdf_fails [of uploads_fs "invoice_data guest_order"]
    by (simp add: invoice_bytes_def failing_app_def example_app_def example_db_def
        plain_template_def)
  then show ?thesis
    by (simp add: generate_document_def generate_invoice_def invoice_pdf_def example_db_def
        unknown_request_def guest_order_def)
qed


lemma decode_encode: "decode (encode s) = s"
proof -
  have "char_of (unat (of_nat (of_char c) :: byte)) = c" for c
    by (simp add: unat_of_nat)
  then show ?thesis
    by (simp add: decode_def encode_def comp_def)
qed

lemma fc: "format_currency (Finite (2469 / 2)) ''USD'' = ''$1,234.50''"
  by (simp add: format_currency_def round_half_even_def Let_def dict_get_def
      currency_symbols_def group3_def nat_digits.simps digit_char_def zfill_def)

lemma parse_acme:
  "parse_template ''Hello {{customer.name}}, total {{total|format_currency}}'' =
     Some [Text ''Hello '', Output [''customer'', ''name''] [], Text '', total '',
           Output [''total''] [''format_currency''], Text []]"
  by (simp add: parse_eval)

lemma render_acme:
  assumes "map_of ctx ''customer'' = Some (PDict [(''name'', Scalar (PStr ''Acme''))])"
    and "map_of ctx ''total'' = Some (PFloat (Finite (2469 / 2)))"
  shows "render_source service_env ''Hello {{customer.name}}, total {{total|format_currency}}''
           ctx = Some (Inr ''Hello Acme, total $1,234.50'')"
  using assms
  by (simp add: render_source_def parse_acme)
     (simp add: render_eval service_env_def fc escape_def sq_def dq_def dunder_def)

lemma render_acme_bare:
  "render_source template_class_env
     ''Hello {{customer.name}}, total {{total|format_currency}}'' ctx =
     Some (Inl (TemplateError (''No filter named '' @ sq @ ''format_currency'' @ sq @ ''.'')))"
  by (simp add: render_source_def parse_acme)
     (simp add: known_filter_def template_class_env_def)

lemma context_acme:
  "\<exists>ctx. build_context ext settings fs (Some acme_context) None None False None None = Inr ctx \<and>
     map_of ctx ''customer'' = Some (PDict [(''name'', Scalar (PStr ''Acme''))]) \<and>
     map_of ctx ''total'' = Some (PFloat (Finite (2469 / 2)))"
  by (simp add: build_context_def nonempty_def dict_get_def acme_context_def)

lemma digits_nat_digits: "set (nat_digits n) \<subseteq> set ''0123456789''"
proof (induction n rule: nat_digits.induct)
  case (1 n)
  have d: "digit_char m \<in> set ''0123456789''" for m
  proof -
    define k where "k = m mod 10"
    then have "k < 10" by simp
    then have "k \<in> {0, 1, 2, 3, 4, 5, 6, 7, 8, 9}" by auto
    then have "''0123456789'' ! k \<in> set ''0123456789''" by auto
    then show ?thesis
      by (simp add: digit_char_def k_def)
  qed
  show ?case
  proof (cases "n < 10")
    case True
    then show ?thesis
      using d [of n] by (subst nat_digits.simps) simp
  next
    case False
    with 1 d [of n] show ?thesis
      by (subst nat_digits.simps) auto
  qed
qed

lemma two_decimals:
  assumes "m < 100"
  shows "\<exists>d1 d2. zfill 2 (nat_digits m) = [d1, d2] \<and> d1 \<in> set ''0123456789'' \<and>
           d2 \<in> set ''0123456789''"
proof -
  have "length (zfill 2 (nat_digits m)) = 2"
    using assms length_field [of m 2] by simp
  then obtain d1 d2 where z: "zfill 2 (nat_digits m) = [d1, d2]"
    by (cases "zfill 2 (nat_digits m)"; cases "tl (zfill 2 (nat_digits m))") auto
  have "set (zfill 2 (nat_digits m)) \<subseteq> set ''0123456789''"
    using digits_nat_digits [of m] by (auto simp: zfill_def)
  with z show ?thesis by auto
qed

text \<open>
  \<open>_format_currency\<close> with the default currency, for a finite amount: a dollar sign and a
  text that ends in a decimal point and two digits. The negative zero is printed as
  \<open>$-0.00\<close>; an infinity or a NaN has no decimals.
\<close>

lemma format_currency_shape:
  "\<exists>body d1 d2. format_currency (Finite v) ''USD'' = ''$'' @ body @ [CHR ''.'', d1, d2] \<and>
     d1 \<in> set ''0123456789'' \<and> d2 \<in> set ''0123456789''"
proof -
  let ?n = "nat (round_half_even (\<bar>v\<bar> * 100))"
  have "?n mod 100 < 100" by simp
  from two_decimals [OF this] obtain d1 d2 where
    d: "zfill 2 (nat_digits (?n mod 100)) = [d1, d2]" "d1 \<in> set ''0123456789''"
       "d2 \<in> set ''0123456789''"
    by blast
  have "format_currency (Finite v) ''USD'' =
      ''$'' @ ((if v < 0 then ''-'' else []) @ group3 (nat_digits (?n div 100))) @ [CHR ''.'', d1, d2]"
    using d(1) by (simp add: format_currency_def Let_def dict_get_def currency_symbols_def)
  with d(2,3) show ?thesis by blast
qed

lemma format_currency_not_finite:
  "format_currency NegZero ''USD'' = ''$-0.00''"
  "format_currency PosInf ''USD'' = ''$inf''"
  "format_currency NegInf ''USD'' = ''$-inf''"
  "format_currency NaN ''USD'' = ''$nan''"
  by (simp_all add: format_currency_def dict_get_def currency_symbols_def)

text \<open>
  C6 at a failing input. The markup of the scenario, with the customer Acme and the total
  1234.5: loaded by name it is rendered in the service's environment and resolves to
  \<open>Hello Acme, total $1,234.50\<close>; given as \<open>html_content\<close> it is compiled by a bare
  \<open>Template\<close>, which does not know the filters that \<open>__init__\<close> registers, and
  \<open>generate_pdf\<close> raises ``No filter named 'format_currency'.'' instead. The filter itself
  turns 1234.5 into \<open>$1,234.50\<close>, and the symbol table has USD, EUR, GBP and INR.
\<close>

theorem acme_scenario_by_path:
  "generate_pdf fragment_externals default_settings ''app/templates'' acme_fs
     None (Some ''Hello {{customer.name}}, total {{total|format_currency}}'')
     (Some acme_context) None None None False None None =
     Inl (TemplateError (''No filter named '' @ sq @ ''format_currency'' @ sq @ ''.'')) \<and>
   generate_pdf fragment_externals default_settings ''app/templates'' acme_fs
     (Some ''acme.html'') None (Some acme_context) None None None False None None =
     Inr (encode ''Hello Acme, total $1,234.50'') \<and>
   format_currency (Finite (2469 / 2)) ''USD'' = ''$1,234.50'' \<and>
   map_of currency_symbols ''USD'' = Some ''$'' \<and>
   map_of currency_symbols ''EUR'' = Some [CHR 0xE2, CHR 0x82, CHR 0xAC] \<and>
   map_of currency_symbols ''GBP'' = Some [CHR 0xC2, CHR 0xA3] \<and>
   map_of currency_symbols ''INR'' = Some [CHR 0xE2, CHR 0x82, CHR 0xB9]"
proof -
  obtain ctx where ctx: "build_context fragment_externals default_settings acme_fs
      (Some acme_context) None None False None None = Inr ctx"
    "map_of ctx ''customer'' = Some (PDict [(''name'', Scalar (PStr ''Acme''))])"
    "map_of ctx ''total'' = Some (PFloat (Finite (2469 / 2)))"
    using context_acme by blast
  have direct: "render_html fragment_externals ''app/templates'' acme_fs None
      (Some ''Hello {{customer.name}}, total {{total|format_currency}}'') ctx =
      Inl (TemplateError (''No filter named '' @ sq @ ''format_currency'' @ sq @ ''.''))"
    by (simp add: render_html_def nonempty_def fragment_externals_def render_acme_bare)
  have named: "render_html fragment_externals ''app/templates'' acme_fs
      (Some ''acme.html'') None ctx = Inr ''Hello Acme, total $1,234.50''"
    by (simp add: render_html_def nonempty_def render_template_def acme_fs_def acme_markup_def
        path_join_def decode_encode fragment_externals_def render_acme [OF ctx(2,3)])
  have pdf: "generate_pdf fragment_externals default_settings ''app/templates'' acme_fs
       None (Some ''Hello {{customer.name}}, total {{total|format_currency}}'')
       (Some acme_context) None None None False None None =
       Inl (TemplateError (''No filter named '' @ sq @ ''format_currency'' @ sq @ ''.'')) \<and>
     generate_pdf fragment_externals default_settings ''app/templates'' acme_fs
       (Some ''acme.html'') None (Some acme_context) None None None False None None =
       Inr (encode ''Hello Acme, total $1,234.50'')"
    by (simp add: generate_pdf_def ctx(1) direct named) (simp add: fragment_externals_def)
  with fc show ?thesis
    by (simp add: currency_symbols_def)
qed

lemma render_tom:
  "render_source template_class_env ''<p>{{ name }}</p>'' tom_context =
     Some (Inr ''<p><b>Tom & Co</b></p>'')"
  "render_source service_env ''<p>{{ name }}</p>'' tom_context =
     Some (Inr ''<p>&lt;b&gt;Tom &amp; Co&lt;/b&gt;</p>'')"
  by (simp_all add: parse_eval render_eval template_class_env_def service_env_def tom_context_def
      escape_def sq_def dq_def dunder_def)

lemma context_tom:
  "\<exists>ctx. build_context ext settings fs (Some tom_context) None None False None None = Inr ctx \<and>
     map_of ctx ''name'' = Some (Scalar (PStr ''<b>Tom & Co</b>''))"
  by (simp add: build_context_def nonempty_def dict_get_def tom_context_def)

lemma render_source_name:
  assumes "map_of ctx ''name'' = Some (Scalar (PStr ''<b>Tom & Co</b>''))"
  shows "render_source template_class_env ''<p>{{ name }}</p>'' ctx =
           Some (Inr ''<p><b>Tom & Co</b></p>'')"
    and "render_source service_env ''<p>{{ name }}</p>'' ctx =
           Some (Inr ''<p>&lt;b&gt;Tom &amp; Co&lt;/b&gt;</p>'')"
  using assms
  by (simp_all add: parse_eval render_eval template_class_env_def service_env_def
      escape_def sq_def dq_def dunder_def)

text \<open>
  C2 at a failing input. The markup \<open><p>{{ name }}</p>\<close> with a name that contains \<open><\<close> and
  \<open>&\<close>: given as \<open>html_content\<close> it is rendered by a bare \<open>Template\<close>, outside the service's
  environment, and the name reaches the document unescaped; the same markup loaded by name
  is escaped.
\<close>

theorem html_content_not_escaped:
  "generate_pdf fragment_externals default_settings ''app/templates'' greeting_fs
     None (Some ''<p>{{ name }}</p>'') (Some tom_context) None None None False None None =
     Inr (encode ''<p><b>Tom & Co</b></p>'') \<and>
   generate_pdf fragment_externals default_settings ''app/templates'' greeting_fs
     (Some ''greeting.html'') None (Some tom_context) None None None False None None =
     Inr (encode ''<p>&lt;b&gt;Tom &amp; Co&lt;/b&gt;</p>'')"
proof -
  obtain ctx where ctx: "build_context fragment_externals default_settings greeting_fs
      (Some tom_context) None None False None None = Inr ctx"
    "map_of ctx ''name'' = Some (Scalar (PStr ''<b>Tom & Co</b>''))"
    using context_tom by blast
  have direct: "render_html fragment_externals ''app/templates'' greeting_fs None
      (Some ''<p>{{ name }}</p>'') ctx = Inr ''<p><b>Tom & Co</b></p>''"
    by (simp add: render_html_def nonempty_def fragment_externals_def
        render_source_name(1) [OF ctx(2)])
  have named: "render_html fragment_externals ''app/templates'' greeting_fs
      (Some ''greeting.html'') None ctx = Inr ''<p>&lt;b&gt;Tom &amp; Co&lt;/b&gt;</p>''"
    by (simp add: render_html_def nonempty_def render_template_def greeting_fs_def path_join_def
        decode_encode fragment_externals_def render_source_name(2) [OF ctx(2)])
  show ?thesis
    by (simp add: generate_pdf_def ctx(1) direct named) (simp add: fragment_externals_def)
qed

end
